theory Spec2Isabelle
  imports Complex_Main "HOL-Library.Sublist"
begin

section \<open>JavaScript strings\<close>

text \<open>
  The wizard of \<^verbatim>\<open>src/app/new-application/page.tsx\<close> works on JavaScript strings.
  A string is modelled as a \<^typ>\<open>string\<close>: the list of its code units, each in the range
  U+0000..U+00FF (the 8-bit \<^typ>\<open>char\<close> of HOL). \<^verbatim>\<open>s.length\<close> is \<^term>\<open>length s\<close>.
  Strings with code units above U+00FF are outside the model.
\<close>

text \<open>
  \<^verbatim>\<open>String.prototype.toLowerCase\<close> on this range: A..Z and the Latin-1 capitals
  U+00C0..U+00DE (without the multiplication sign U+00D7) move up by 32, every other
  code unit is unchanged.
\<close>

definition toLowerCase_char :: "char \<Rightarrow> char" where
  "toLowerCase_char c =
     (let n = (of_char c :: nat) in
      if (65 \<le> n \<and> n \<le> 90) \<or> (192 \<le> n \<and> n \<le> 222 \<and> n \<noteq> 215)
      then char_of (n + 32) else c)"

definition toLowerCase :: "string \<Rightarrow> string" where
  "toLowerCase s = map toLowerCase_char s"

text \<open>
  \<^verbatim>\<open>s.includes(t)\<close>: some position of \<open>s\<close> starts an occurrence of \<open>t\<close>; the search
  tries the positions from the left, the end of the string included (so the empty
  string is found everywhere).
\<close>

fun includes_str :: "string \<Rightarrow> string \<Rightarrow> bool" where
  "includes_str [] t = (t = [])"
| "includes_str (c # cs) t = (prefix t (c # cs) \<or> includes_str cs t)"

text \<open>
  \<^verbatim>\<open>s.trim()\<close> removes white space and line terminators from both ends. In the modelled
  range these are TAB, LF, VT, FF, CR, SPACE and the no-break space U+00A0.
\<close>

definition is_whitespace :: "char \<Rightarrow> bool" where
  "is_whitespace c = ((of_char c :: nat) \<in> {9, 10, 11, 12, 13, 32, 160})"

definition trim :: "string \<Rightarrow> string" where
  "trim s = rev (dropWhile is_whitespace (rev (dropWhile is_whitespace s)))"

text \<open>The character class \<^verbatim>\<open>[A-Za-z0-9]\<close>.\<close>

definition is_alnum :: "char \<Rightarrow> bool" where
  "is_alnum c =
     (let n = (of_char c :: nat) in
      (65 \<le> n \<and> n \<le> 90) \<or> (97 \<le> n \<and> n \<le> 122) \<or> (48 \<le> n \<and> n \<le> 57))"

text \<open>
  \<^verbatim>\<open>/^[A-Za-z0-9]+$/.test(s)\<close>: without the multiline flag the anchors are the two ends of
  the input, so the whole of \<open>s\<close> is one or more characters of the class.
\<close>

definition test_alnum :: "string \<Rightarrow> bool" where
  "test_alnum s = (s \<noteq> [] \<and> list_all is_alnum s)"

text \<open>
  \<^verbatim>\<open>String.prototype.toUpperCase\<close>, used on the digits of a base-36 numeral: a..z and the
  Latin-1 small letters U+00E0..U+00FE (without the division sign U+00F7) move down by
  32. The three code units of the range whose capital is not in the range (U+00B5,
  U+00DF, U+00FF) are left as they are; no base-36 numeral contains them.
\<close>

definition toUpperCase_char :: "char \<Rightarrow> char" where
  "toUpperCase_char c =
     (let n = (of_char c :: nat) in
      if (97 \<le> n \<and> n \<le> 122) \<or> (224 \<le> n \<and> n \<le> 254 \<and> n \<noteq> 247)
      then char_of (n - 32) else c)"

definition toUpperCase :: "string \<Rightarrow> string" where
  "toUpperCase s = map toUpperCase_char s"

text \<open>\<^verbatim>\<open>s.substr(start, len)\<close> for \<open>start\<close> and \<open>len\<close> that are not negative.\<close>

definition substr :: "string \<Rightarrow> nat \<Rightarrow> nat \<Rightarrow> string" where
  "substr s start len = take len (drop start s)"

definition is_digit :: "char \<Rightarrow> bool" where
  "is_digit c = (48 \<le> (of_char c :: nat) \<and> (of_char c :: nat) \<le> 57)"

text \<open>
  The decimal numeral of an integer, as a template literal prints \<^verbatim>\<open>Date.now()\<close> (an
  integer number of milliseconds, far below the size at which JavaScript switches to
  the exponent notation).
\<close>

definition digit_char :: "nat \<Rightarrow> char" where
  "digit_char d = char_of (48 + d)"

fun string_of_nat :: "nat \<Rightarrow> string" where
  "string_of_nat n =
     (if n < 10 then [digit_char n] else string_of_nat (n div 10) @ [digit_char (n mod 10)])"

declare string_of_nat.simps [simp del]

definition string_of_int :: "int \<Rightarrow> string" where
  "string_of_int i =
     (if i < 0 then CHR ''-'' # string_of_nat (nat (- i)) else string_of_nat (nat i))"


section \<open>The form data and its schema\<close>

text \<open>
  \<^verbatim>\<open>type BuildingPermitForm = z.infer<typeof buildingPermitSchema>\<close>: five strings and the
  optional \<^verbatim>\<open>contractorLicense\<close> (\<^term>\<open>None\<close> is \<^verbatim>\<open>undefined\<close>).
\<close>

record BuildingPermitForm =
  applicantName :: string
  propertyAddress :: string
  projectType :: string
  projectDescription :: string
  estimatedCost :: string
  contractorLicense :: "string option"

text \<open>\<^verbatim>\<open>keyof BuildingPermitForm\<close>.\<close>

datatype field =
  ApplicantName | PropertyAddress | ProjectType | ProjectDescription
  | EstimatedCost | ContractorLicense

definition PROJECT_TYPES :: "string list" where
  "PROJECT_TYPES =
     [''New Construction - Residential'',
      ''New Construction - Commercial'',
      ''Addition - Residential'',
      ''Addition - Commercial'',
      ''Renovation - Interior'',
      ''Renovation - Exterior'',
      ''Deck/Patio Construction'',
      ''Garage Construction'',
      ''Shed Construction'',
      ''Pool Installation'',
      ''Electrical Work'',
      ''Plumbing Work'',
      ''HVAC Installation'',
      ''Roofing Work'',
      ''Demolition'',
      ''Other'']"

text \<open>
  The module \<^verbatim>\<open>@/lib/utils\<close> is not among the sources. Its two functions used by the
  schema are parameters of the model: \<^verbatim>\<open>coerceNumberOrFail\<close> returns a number or throws,
  \<^verbatim>\<open>isPositiveNumber\<close> returns a boolean (or throws). \<open>'n\<close> is the type of numbers.
\<close>

datatype exn = Thrown

record 'n utils =
  coerceNumberOrFail :: "string \<Rightarrow> exn + 'n"
  isPositiveNumber :: "'n \<Rightarrow> exn + bool"

text \<open>
  A zod check that fails adds an issue with the message given in the schema. Each
  function below returns the messages of the issues of one key of
  \<^verbatim>\<open>buildingPermitSchema\<close>, in the order in which zod raises them: the checks of
  \<^verbatim>\<open>z.string()\<close> first (\<^verbatim>\<open>min\<close> fails when the length is smaller, \<^verbatim>\<open>max\<close> when it is
  larger), then the refinement, which runs on every string.
\<close>

definition applicantName_issues :: "string \<Rightarrow> string list" where
  "applicantName_issues val =
     (if length val < 2 then [''Applicant name must be at least 2 characters''] else [])
     @ (if length val > 100 then [''Applicant name must be less than 100 characters''] else [])"

definition propertyAddress_refine :: "string \<Rightarrow> bool" where
  "propertyAddress_refine val =
     (includes_str (toLowerCase val) ''pa'' \<or> includes_str (toLowerCase val) ''pennsylvania'')"

definition propertyAddress_issues :: "string \<Rightarrow> string list" where
  "propertyAddress_issues val =
     (if length val < 10 then [''Property address must be at least 10 characters''] else [])
     @ (if length val > 200 then [''Property address must be less than 200 characters''] else [])
     @ (if propertyAddress_refine val then [] else [''Address must be in Pennsylvania (PA)''])"

definition projectType_issues :: "string \<Rightarrow> string list" where
  "projectType_issues val =
     (if length val < 1 then [''Please select a project type''] else [])"

definition projectDescription_issues :: "string \<Rightarrow> string list" where
  "projectDescription_issues val =
     (if length val < 10 then [''Project description must be at least 10 characters''] else [])
     @ (if length val > 1000 then [''Project description must be less than 1000 characters''] else [])"

text \<open>
  The refinement of \<^verbatim>\<open>estimatedCost\<close>. Its body is a \<^verbatim>\<open>try\<close> whose \<^verbatim>\<open>catch\<close> returns
  \<^verbatim>\<open>false\<close>; the result type keeps the possibility of a throw (\<^term>\<open>Inl Thrown\<close>), so
  that its absence is a theorem and not a convention.
\<close>

definition estimatedCost_refine :: "'n utils \<Rightarrow> string \<Rightarrow> exn + bool" where
  "estimatedCost_refine U val =
     (case (case coerceNumberOrFail U val of
              Inl e \<Rightarrow> Inl e
            | Inr num \<Rightarrow> isPositiveNumber U num) of
        Inl e \<Rightarrow> Inr False
      | Inr b \<Rightarrow> Inr b)"

definition estimatedCost_issues :: "'n utils \<Rightarrow> string \<Rightarrow> string list" where
  "estimatedCost_issues U val =
     (if estimatedCost_refine U val = Inr True then []
      else [''Estimated cost must be a positive number''])"

text \<open>
  The refinement of \<^verbatim>\<open>contractorLicense\<close>: \<^verbatim>\<open>!val\<close> holds for \<^verbatim>\<open>undefined\<close> and for the
  empty string.
\<close>

definition contractorLicense_refine :: "string option \<Rightarrow> bool" where
  "contractorLicense_refine val =
     (case val of
        None \<Rightarrow> True
      | Some s \<Rightarrow>
          if s = [] \<or> trim s = [] then True
          else test_alnum (trim s))"

definition contractorLicense_issues :: "string option \<Rightarrow> string list" where
  "contractorLicense_issues val =
     (if contractorLicense_refine val then []
      else [''Contractor license must be alphanumeric if provided''])"

text \<open>The issues of one key of the schema for the values \<open>d\<close>.\<close>

fun field_issues :: "'n utils \<Rightarrow> BuildingPermitForm \<Rightarrow> field \<Rightarrow> string list" where
  "field_issues U d ApplicantName = applicantName_issues (applicantName d)"
| "field_issues U d PropertyAddress = propertyAddress_issues (propertyAddress d)"
| "field_issues U d ProjectType = projectType_issues (projectType d)"
| "field_issues U d ProjectDescription = projectDescription_issues (projectDescription d)"
| "field_issues U d EstimatedCost = estimatedCost_issues U (estimatedCost d)"
| "field_issues U d ContractorLicense = contractorLicense_issues (contractorLicense d)"

definition schema_keys :: "field list" where
  "schema_keys =
     [ApplicantName, PropertyAddress, ProjectType, ProjectDescription,
      EstimatedCost, ContractorLicense]"

text \<open>
  \<^verbatim>\<open>buildingPermitSchema.safeParse(d)\<close>: the issues of all keys, each with its path, in the
  order of the keys of the object schema.
\<close>

definition schema_issues :: "'n utils \<Rightarrow> BuildingPermitForm \<Rightarrow> (field \<times> string) list" where
  "schema_issues U d =
     concat (map (\<lambda>f. map (\<lambda>m. (f, m)) (field_issues U d f)) schema_keys)"


section \<open>The form state\<close>

text \<open>
  \<^verbatim>\<open>useForm\<close> of react-hook-form with the zod resolver. The form holds the current values
  and the default values. \<^verbatim>\<open>reset()\<close> puts the default values back; \<^verbatim>\<open>reset(v)\<close>, called
  without the option \<^verbatim>\<open>keepDefaultValues\<close>, installs \<open>v\<close> as the current values and as the
  new default values.
\<close>

record form_state =
  formValues :: BuildingPermitForm
  defaultValues :: BuildingPermitForm

definition initial_values :: BuildingPermitForm where
  "initial_values =
     \<lparr>applicantName = [], propertyAddress = [], projectType = [],
      projectDescription = [], estimatedCost = [], contractorLicense = Some []\<rparr>"

definition useForm :: form_state where
  "useForm = \<lparr>formValues = initial_values, defaultValues = initial_values\<rparr>"

definition reset :: "form_state \<Rightarrow> form_state" where
  "reset fm = fm\<lparr>formValues := defaultValues fm\<rparr>"

definition reset_to :: "BuildingPermitForm \<Rightarrow> form_state \<Rightarrow> form_state" where
  "reset_to v fm = fm\<lparr>formValues := v, defaultValues := v\<rparr>"

text \<open>
  The resolver parses all the values with the schema and keeps, for every path, the
  first issue. \<^verbatim>\<open>trigger(names)\<close> runs the resolver and answers whether none of the
  names has an error (so \<^verbatim>\<open>trigger([])\<close> is \<^verbatim>\<open>true\<close>).
\<close>

definition resolver_errors :: "'n utils \<Rightarrow> BuildingPermitForm \<Rightarrow> field \<rightharpoonup> string" where
  "resolver_errors U d = map_of (schema_issues U d)"

definition trigger :: "'n utils \<Rightarrow> field list \<Rightarrow> form_state \<Rightarrow> bool" where
  "trigger U names fm = list_all (\<lambda>name. resolver_errors U (formValues fm) name = None) names"


section \<open>JSON\<close>

text \<open>
  \<^verbatim>\<open>JSON.stringify\<close> and \<^verbatim>\<open>JSON.parse\<close> are built into the language; they are modelled
  after the ECMAScript definition. The texts they write and read are strings of the
  model. The strings inside a parsed value are lists of code units given as numbers,
  since an escape \<^verbatim>\<open>\uXXXX\<close> can denote any 16-bit code unit.
\<close>

definition dquote :: char where
  "dquote = CHR 0x22"

definition backslash :: char where
  "backslash = CHR 0x5C"

definition hex_digit :: "nat \<Rightarrow> char" where
  "hex_digit k = ''0123456789abcdef'' ! k"

text \<open>
  \<^verbatim>\<open>QuoteJSONString\<close>: the two-character escapes, \<^verbatim>\<open>\u00XX\<close> for the other control
  characters, every other code unit as it is.
\<close>

definition quote_char :: "char \<Rightarrow> string" where
  "quote_char c =
     (let n = (of_char c :: nat) in
      if n = 8 then [backslash, CHR ''b'']
      else if n = 9 then [backslash, CHR ''t'']
      else if n = 10 then [backslash, CHR ''n'']
      else if n = 12 then [backslash, CHR ''f'']
      else if n = 13 then [backslash, CHR ''r'']
      else if c = dquote then [backslash, dquote]
      else if c = backslash then [backslash, backslash]
      else if n < 32 then
        [backslash, CHR ''u'', CHR ''0'', CHR ''0'', hex_digit (n div 16), hex_digit (n mod 16)]
      else [c])"

definition QuoteJSONString :: "string \<Rightarrow> string" where
  "QuoteJSONString s = dquote # concat (map quote_char s) @ [dquote]"

fun join_commas :: "string list \<Rightarrow> string" where
  "join_commas [] = []"
| "join_commas [p] = p"
| "join_commas (p # q # ps) = p @ '','' @ join_commas (q # ps)"

text \<open>
  \<^verbatim>\<open>JSON.stringify\<close> of an object whose properties, given in their order, hold strings or
  \<^verbatim>\<open>undefined\<close>: a property that is \<^verbatim>\<open>undefined\<close> is left out. The objects that the
  wizard serialises have this shape by their TypeScript type.
\<close>

definition JSON_stringify :: "(string \<times> string option) list \<Rightarrow> string" where
  "JSON_stringify props =
     ''{'' @ join_commas
              (concat (map (\<lambda>(k, v). case v of
                                       None \<Rightarrow> []
                                     | Some s \<Rightarrow> [QuoteJSONString k @ '':'' @ QuoteJSONString s])
                           props))
     @ ''}''"

text \<open>
  JSON values. A number keeps its literal: its value as a double is not needed here.
  An object keeps its members in the order of the text, duplicates included.
\<close>

datatype json =
  JNull | JBool bool | JNum string | JStr "nat list"
  | JArr "json list" | JObj "(nat list \<times> json) list"

datatype token =
  TLBrace | TRBrace | TLBrack | TRBrack | TColon | TComma
  | TString "nat list" | TNumber string | TTrue | TFalse | TNull

definition hexval :: "char \<Rightarrow> nat option" where
  "hexval c =
     (let n = (of_char c :: nat) in
      if 48 \<le> n \<and> n \<le> 57 then Some (n - 48)
      else if 97 \<le> n \<and> n \<le> 102 then Some (n - 87)
      else if 65 \<le> n \<and> n \<le> 70 then Some (n - 55)
      else None)"

definition hex4 :: "string \<Rightarrow> nat option" where
  "hex4 s =
     (case map hexval s of
        [Some a, Some b, Some c, Some d] \<Rightarrow> Some (((a * 16 + b) * 16 + c) * 16 + d)
      | _ \<Rightarrow> None)"

definition unescape :: "char \<Rightarrow> nat option" where
  "unescape e =
     (if e = dquote then Some 34
      else if e = backslash then Some 92
      else if e = CHR ''/'' then Some 47
      else if e = CHR ''b'' then Some 8
      else if e = CHR ''f'' then Some 12
      else if e = CHR ''n'' then Some 10
      else if e = CHR ''r'' then Some 13
      else if e = CHR ''t'' then Some 9
      else None)"

text \<open>
  The rest of a string literal after its opening quote: the code units of the string
  and the text after the closing quote. A raw control character, an unknown escape and
  a missing closing quote are syntax errors (\<^term>\<open>None\<close>).
\<close>

fun scan_string :: "string \<Rightarrow> (nat list \<times> string) option" where
  "scan_string [] = None"
| "scan_string (c # cs) =
     (if c = dquote then Some ([], cs)
      else if c = backslash then
        (case cs of
           [] \<Rightarrow> None
         | e # cs' \<Rightarrow>
             if e = CHR ''u'' then
               (case hex4 (take 4 cs') of
                  None \<Rightarrow> None
                | Some u \<Rightarrow> map_option (\<lambda>(s, r). (u # s, r)) (scan_string (drop 4 cs')))
             else
               (case unescape e of
                  None \<Rightarrow> None
                | Some u \<Rightarrow> map_option (\<lambda>(s, r). (u # s, r)) (scan_string cs')))
      else if (of_char c :: nat) < 32 then None
      else map_option (\<lambda>(s, r). (of_char c # s, r)) (scan_string cs))"

lemma scan_string_shorter: "scan_string cs = Some (s, r) \<Longrightarrow> length r < length cs"
proof (induction cs arbitrary: s r rule: scan_string.induct)
  case 1
  then show ?case by simp
next
  case (2 c cs)
  then show ?case
    by (auto split: if_splits list.splits option.splits) fastforce+
qed

definition is_json_ws :: "char \<Rightarrow> bool" where
  "is_json_ws c = ((of_char c :: nat) \<in> {9, 10, 13, 32})"

definition is_num_char :: "char \<Rightarrow> bool" where
  "is_num_char c = (is_digit c \<or> c \<in> set ''+-.eE'')"

text \<open>
  The grammar of a number: an optional minus sign, an integer part without a leading
  zero, an optional fraction, an optional exponent. Each function takes off one part
  and returns what is left.
\<close>

definition num_int :: "string \<Rightarrow> string option" where
  "num_int s =
     (case s of
        [] \<Rightarrow> None
      | c # r \<Rightarrow>
          if c = CHR ''0'' then Some r
          else if is_digit c then Some (dropWhile is_digit r)
          else None)"

definition num_frac :: "string \<Rightarrow> string option" where
  "num_frac s =
     (case s of
        [] \<Rightarrow> Some []
      | c # r \<Rightarrow>
          if c = CHR ''.'' then
            (if takeWhile is_digit r = [] then None else Some (dropWhile is_digit r))
          else Some s)"

definition num_exp :: "string \<Rightarrow> string option" where
  "num_exp s =
     (case s of
        [] \<Rightarrow> Some []
      | c # r \<Rightarrow>
          if c = CHR ''e'' \<or> c = CHR ''E'' then
            (let r' = (case r of
                         [] \<Rightarrow> r
                       | g # t \<Rightarrow> if g = CHR ''+'' \<or> g = CHR ''-'' then t else r)
             in if takeWhile is_digit r' = [] then None else Some (dropWhile is_digit r'))
          else Some s)"

definition num_ok :: "string \<Rightarrow> bool" where
  "num_ok s =
     (case num_int (case s of [] \<Rightarrow> s | c # r \<Rightarrow> if c = CHR ''-'' then r else s) of
        None \<Rightarrow> False
      | Some s1 \<Rightarrow>
          (case num_frac s1 of
             None \<Rightarrow> False
           | Some s2 \<Rightarrow> num_exp s2 = Some []))"

text \<open>
  The tokens of a text. White space between tokens is skipped. A number is the longest
  run of number characters, which must follow the grammar (in a JSON text no number
  character can follow a number).
\<close>

function lex :: "string \<Rightarrow> token list option" where
  "lex [] = Some []"
| "lex (c # cs) =
     (if is_json_ws c then lex cs
      else if c = CHR ''{'' then map_option ((#) TLBrace) (lex cs)
      else if c = CHR ''}'' then map_option ((#) TRBrace) (lex cs)
      else if c = CHR ''['' then map_option ((#) TLBrack) (lex cs)
      else if c = CHR '']'' then map_option ((#) TRBrack) (lex cs)
      else if c = CHR '':'' then map_option ((#) TColon) (lex cs)
      else if c = CHR '','' then map_option ((#) TComma) (lex cs)
      else if c = dquote then
        (case scan_string cs of
           None \<Rightarrow> None
         | Some (s, r) \<Rightarrow> map_option ((#) (TString s)) (lex r))
      else if c = CHR ''-'' \<or> is_digit c then
        (if num_ok (c # takeWhile is_num_char cs)
         then map_option ((#) (TNumber (c # takeWhile is_num_char cs)))
                (lex (dropWhile is_num_char cs))
         else None)
      else if prefix ''true'' (c # cs) then map_option ((#) TTrue) (lex (drop 3 cs))
      else if prefix ''false'' (c # cs) then map_option ((#) TFalse) (lex (drop 4 cs))
      else if prefix ''null'' (c # cs) then map_option ((#) TNull) (lex (drop 3 cs))
      else None)"
  by pat_completeness auto
termination
proof (relation "measure length")
  show "wf (measure length)"
    by simp
next
  fix c cs x2 x y
  assume "scan_string cs = Some x2" "(x, y) = x2"
  then show "(y, c # cs) \<in> measure length"
    using scan_string_shorter [of cs x y] by simp
qed (simp_all add: length_dropWhile_le less_Suc_eq_le)

text \<open>
  The parser reads the tokens from left to right and keeps the open arrays and objects
  on a stack: an array with the elements read so far, an object with the members read
  so far and the key whose value is being read (both lists newest first).
\<close>

datatype frame =
  FArr "json list"
  | FObj "(nat list \<times> json) list" "nat list"

datatype pstate =
  PValue "frame list"
  | PArrStart "frame list"
  | PObjStart "frame list"
  | PKey "(nat list \<times> json) list" "frame list"
  | PColon "(nat list \<times> json) list" "nat list" "frame list"
  | PAfter json "frame list"

fun start_value :: "frame list \<Rightarrow> token \<Rightarrow> pstate option" where
  "start_value st (TString s) = Some (PAfter (JStr s) st)"
| "start_value st (TNumber l) = Some (PAfter (JNum l) st)"
| "start_value st TTrue = Some (PAfter (JBool True) st)"
| "start_value st TFalse = Some (PAfter (JBool False) st)"
| "start_value st TNull = Some (PAfter JNull st)"
| "start_value st TLBrack = Some (PArrStart st)"
| "start_value st TLBrace = Some (PObjStart st)"
| "start_value st _ = None"

fun parse_step :: "pstate \<Rightarrow> token \<Rightarrow> pstate option" where
  "parse_step (PValue st) t = start_value st t"
| "parse_step (PArrStart st) t =
     (if t = TRBrack then Some (PAfter (JArr []) st) else start_value (FArr [] # st) t)"
| "parse_step (PObjStart st) t =
     (case t of
        TRBrace \<Rightarrow> Some (PAfter (JObj []) st)
      | TString k \<Rightarrow> Some (PColon [] k st)
      | _ \<Rightarrow> None)"
| "parse_step (PKey ms st) t = (case t of TString k \<Rightarrow> Some (PColon ms k st) | _ \<Rightarrow> None)"
| "parse_step (PColon ms k st) t = (if t = TColon then Some (PValue (FObj ms k # st)) else None)"
| "parse_step (PAfter v []) t = None"
| "parse_step (PAfter v (FArr es # st)) t =
     (if t = TComma then Some (PValue (FArr (v # es) # st))
      else if t = TRBrack then Some (PAfter (JArr (rev (v # es))) st)
      else None)"
| "parse_step (PAfter v (FObj ms k # st)) t =
     (if t = TComma then Some (PKey ((k, v) # ms) st)
      else if t = TRBrace then Some (PAfter (JObj (rev ((k, v) # ms))) st)
      else None)"

fun run :: "pstate \<Rightarrow> token list \<Rightarrow> pstate option" where
  "run p [] = Some p"
| "run p (t # ts) = (case parse_step p t of None \<Rightarrow> None | Some p' \<Rightarrow> run p' ts)"

datatype js_error = SyntaxError

text \<open>\<^verbatim>\<open>JSON.parse(text)\<close>: the value of the text, or the \<^verbatim>\<open>SyntaxError\<close> it throws.\<close>

definition JSON_parse :: "string \<Rightarrow> js_error + json" where
  "JSON_parse text =
     (case lex text of
        None \<Rightarrow> Inl SyntaxError
      | Some ts \<Rightarrow>
          (case run (PValue []) ts of
             Some (PAfter v []) \<Rightarrow> Inr v
           | _ \<Rightarrow> Inl SyntaxError))"

text \<open>
  Reading a property of a parsed object: of two members with one key the later one
  counts. \<^term>\<open>units\<close> is a string of the model as code units, \<^term>\<open>latin1\<close> the way back
  for the code units of the modelled range.
\<close>

definition units :: "string \<Rightarrow> nat list" where
  "units s = map of_char s"

definition latin1 :: "nat list \<Rightarrow> string option" where
  "latin1 us = (if list_all (\<lambda>u. u < 256) us then Some (map char_of us) else None)"

definition property :: "(nat list \<times> json) list \<Rightarrow> string \<Rightarrow> json option" where
  "property ms k = map_of (rev ms) (units k)"

definition string_property :: "(nat list \<times> json) list \<Rightarrow> string \<Rightarrow> string option" where
  "string_property ms k =
     (case property ms k of
        Some (JStr us) \<Rightarrow> latin1 us
      | _ \<Rightarrow> None)"


section \<open>The wizard\<close>

datatype toast = Info string | Error string | Success string

text \<open>
  The state of the component \<^verbatim>\<open>NewApplication\<close>: the two \<^verbatim>\<open>useState\<close> cells, the form, and
  the notifications and diagnostics it has emitted so far (\<^verbatim>\<open>toast\<close>, \<^verbatim>\<open>console.error\<close>).
\<close>

record wizard =
  currentStep :: int
  isClient :: bool
  form :: form_state
  toasts :: "toast list"
  console :: "string list"

definition NewApplication :: wizard where
  "NewApplication =
     \<lparr>currentStep = 1, isClient = False, form = useForm, toasts = [], console = []\<rparr>"

definition FORM_STEPS :: "(int \<times> string \<times> string) list" where
  "FORM_STEPS =
     [(1, ''Applicant Information'', ''Basic applicant details''),
      (2, ''Property & Project'', ''Property and project information''),
      (3, ''Cost & Contractor'', ''Financial and contractor details''),
      (4, ''Review & Submit'', ''Review your application'')]"

definition getFieldsForStep :: "int \<Rightarrow> field list" where
  "getFieldsForStep step =
     (if step = 1 then [ApplicantName]
      else if step = 2 then [PropertyAddress, ProjectType, ProjectDescription]
      else if step = 3 then [EstimatedCost, ContractorLicense]
      else [])"

definition nextStep :: "'n utils \<Rightarrow> wizard \<Rightarrow> wizard" where
  "nextStep U w =
     (let fieldsToValidate = getFieldsForStep (currentStep w);
          isValid = trigger U fieldsToValidate (form w)
      in if isValid
         then w\<lparr>currentStep := min (currentStep w + 1) (int (length FORM_STEPS))\<rparr>
         else w\<lparr>toasts := toasts w @ [Error ''Please fix the errors before continuing'']\<rparr>)"

definition prevStep :: "wizard \<Rightarrow> wizard" where
  "prevStep w = w\<lparr>currentStep := max (currentStep w - 1) 1\<rparr>"




section \<open>Persistence and submission\<close>

text \<open>
  \<^verbatim>\<open>localStorage\<close>: \<^verbatim>\<open>getItem\<close> reads a key, \<^verbatim>\<open>setItem\<close> and \<^verbatim>\<open>removeItem\<close> update it. The
  effects and the handler below run in the browser, where the test
  \<^verbatim>\<open>typeof window !== "undefined"\<close> holds.
\<close>

type_synonym storage = "string \<rightharpoonup> string"

definition form_keys :: "string list" where
  "form_keys =
     [''applicantName'', ''propertyAddress'', ''projectType'', ''projectDescription'',
      ''estimatedCost'', ''contractorLicense'']"

text \<open>The properties of the form values, in the order of \<^verbatim>\<open>defaultValues\<close>.\<close>

definition form_props :: "BuildingPermitForm \<Rightarrow> (string \<times> string option) list" where
  "form_props d =
     [(''applicantName'', Some (applicantName d)),
      (''propertyAddress'', Some (propertyAddress d)),
      (''projectType'', Some (projectType d)),
      (''projectDescription'', Some (projectDescription d)),
      (''estimatedCost'', Some (estimatedCost d)),
      (''contractorLicense'', contractorLicense d)]"

text \<open>
  \<^verbatim>\<open>form.reset(parsedData)\<close> receives whatever \<^verbatim>\<open>JSON.parse\<close> returned. \<^term>\<open>as_form\<close> reads a
  parsed value as form values when it has the shape of the type: an object with the
  keys of the form only, a string of the modelled range under each of the five required
  keys, and a string or nothing under \<^verbatim>\<open>contractorLicense\<close>.
\<close>

definition as_form :: "json \<Rightarrow> BuildingPermitForm option" where
  "as_form j =
     (case j of
        JObj ms \<Rightarrow>
          if list_all (\<lambda>(k, v). k \<in> set (map units form_keys)) ms
             \<and> (case property ms ''contractorLicense'' of
                   None \<Rightarrow> True
                 | Some v \<Rightarrow> string_property ms ''contractorLicense'' \<noteq> None)
          then
            (case (string_property ms ''applicantName'',
                   string_property ms ''propertyAddress'',
                   string_property ms ''projectType'',
                   string_property ms ''projectDescription'',
                   string_property ms ''estimatedCost'') of
               (Some a, Some b, Some c, Some d, Some e) \<Rightarrow>
                 Some \<lparr>applicantName = a, propertyAddress = b, projectType = c,
                       projectDescription = d, estimatedCost = e,
                       contractorLicense = string_property ms ''contractorLicense''\<rparr>
             | _ \<Rightarrow> None)
          else None
      | _ \<Rightarrow> None)"

text \<open>
  A parsed value of another shape has been passed to \<^verbatim>\<open>form.reset\<close> and announced by the
  toast like any other, but the form values that result are not values of the type
  \<^typ>\<open>BuildingPermitForm\<close>: the run leaves the model, with the parsed value as the result.
\<close>

datatype untyped = Untyped json

text \<open>
  The first effect of the component (the spec's \<^verbatim>\<open>loadDraft\<close>): it sets \<^verbatim>\<open>isClient\<close> and
  looks for a saved draft. \<^verbatim>\<open>getItem\<close> gives \<^verbatim>\<open>null\<close> for a missing key; \<^verbatim>\<open>if (savedData)\<close>
  is false for \<^verbatim>\<open>null\<close> and for the empty string. The \<^verbatim>\<open>catch\<close> turns the error of
  \<^verbatim>\<open>JSON.parse\<close> into a line on the console.
\<close>

definition loadDraft :: "storage \<Rightarrow> wizard \<Rightarrow> untyped + wizard" where
  "loadDraft localStorage w =
     (let w1 = w\<lparr>isClient := True\<rparr> in
      case localStorage ''buildingPermitDraft'' of
        None \<Rightarrow> Inr w1
      | Some savedData \<Rightarrow>
          if savedData = [] then Inr w1
          else
            (case JSON_parse savedData of
               Inl error \<Rightarrow> Inr (w1\<lparr>console := console w1 @ [''Error loading draft:'']\<rparr>)
             | Inr parsedData \<Rightarrow>
                 (case as_form parsedData of
                    None \<Rightarrow> Inl (Untyped parsedData)
                  | Some d \<Rightarrow>
                      Inr (w1\<lparr>form := reset_to d (form w1),
                               toasts := toasts w1 @ [Info ''Draft application loaded'']\<rparr>))))"

text \<open>
  The second effect (the spec's \<^verbatim>\<open>saveDraft\<close>): once \<^verbatim>\<open>isClient\<close> is set, every change of
  the watched values writes all of them under the draft key.
\<close>

definition saveDraft :: "wizard \<Rightarrow> storage \<Rightarrow> storage" where
  "saveDraft w localStorage =
     (if isClient w
      then localStorage(''buildingPermitDraft'' \<mapsto>
             JSON_stringify (form_props (formValues (form w))))
      else localStorage)"

text \<open>
  The identifier of an application. \<open>now\<close> is the value of \<^verbatim>\<open>Date.now()\<close> and \<open>random36\<close>
  the text \<^verbatim>\<open>Math.random().toString(36)\<close>; both come from the environment.
\<close>

definition applicationId :: "int \<Rightarrow> string \<Rightarrow> string" where
  "applicationId now random36 =
     ''PA-'' @ string_of_int now @ ''-'' @ toUpperCase (substr random36 2 9)"

text \<open>
  \<^verbatim>\<open>onSubmit(data)\<close>, on the wizard and the storage. \<open>isoString\<close> is the text of
  \<^verbatim>\<open>new Date().toISOString()\<close>.
\<close>

definition onSubmit ::
  "int \<Rightarrow> string \<Rightarrow> string \<Rightarrow> BuildingPermitForm \<Rightarrow> wizard \<times> storage \<Rightarrow> wizard \<times> storage" where
  "onSubmit now random36 isoString data = (\<lambda>(w, localStorage).
     if \<not> isClient w then (w, localStorage)
     else
       let appId = applicationId now random36;
           applicationData =
             form_props data
             @ [(''applicationId'', Some appId),
                (''submittedAt'', Some isoString),
                (''status'', Some ''Submitted'')];
           stored = localStorage(''application_'' @ appId \<mapsto> JSON_stringify applicationData)
       in (w\<lparr>toasts := toasts w
                  @ [Success (''Application submitted successfully! Your application ID is: ''
                              @ appId)],
              form := reset (form w),
              currentStep := 1\<rparr>,
           stored(''buildingPermitDraft'' := None)))"

text \<open>
  \<^verbatim>\<open>form.handleSubmit(onSubmit)\<close>, the handler of the form: it runs the resolver on all
  the values and calls \<^verbatim>\<open>onSubmit\<close> with them when there is no issue.
\<close>

definition handleSubmit ::
  "'n utils \<Rightarrow> (BuildingPermitForm \<Rightarrow> wizard \<times> storage \<Rightarrow> wizard \<times> storage)
     \<Rightarrow> wizard \<times> storage \<Rightarrow> wizard \<times> storage" where
  "handleSubmit U onValid = (\<lambda>(w, localStorage).
     if schema_issues U (formValues (form w)) = []
     then onValid (formValues (form w)) (w, localStorage)
     else (w, localStorage))"

definition submit ::
  "'n utils \<Rightarrow> int \<Rightarrow> string \<Rightarrow> string \<Rightarrow> wizard \<times> storage \<Rightarrow> wizard \<times> storage" where
  "submit U now random36 isoString = handleSubmit U (onSubmit now random36 isoString)"


section \<open>The notions of the specification\<close>

text \<open>
  \<open>s\<close> contains \<open>t\<close> as a case-insensitive substring: some substring of \<open>s\<close> is \<open>t\<close> up to
  the case of the letters.
\<close>

definition contains_ci :: "string \<Rightarrow> string \<Rightarrow> bool" where
  "contains_ci s t = (\<exists>w. sublist w s \<and> toLowerCase w = toLowerCase t)"

text \<open>
  Modelled from the spec: \<^verbatim>\<open>isPositiveNumber\<close> of \<^verbatim>\<open>@/lib/utils\<close>, which is not among the
  sources. The spec asks for ``a strictly positive number''.
\<close>

definition isPositiveNumber_spec :: "rat \<Rightarrow> exn + bool" where
  "isPositiveNumber_spec num = Inr (0 < num)"

text \<open>
  Modelled from the spec: \<^verbatim>\<open>coerceNumberOrFail\<close> of \<^verbatim>\<open>@/lib/utils\<close>, which is not among the
  sources. The spec speaks of ``text representing a decimal number'' and of a coercion
  that fails on other text: here an optional minus sign, digits, and an optional
  fraction of a point and digits. It serves as an instance of the parameter in the
  examples; the theorems hold for every coercion.
\<close>

definition digits_value :: "string \<Rightarrow> nat" where
  "digits_value s = foldl (\<lambda>a c. 10 * a + (of_char c - 48)) 0 s"

definition unsigned_decimal :: "string \<Rightarrow> rat option" where
  "unsigned_decimal s =
     (let ip = takeWhile is_digit s; r = dropWhile is_digit s in
      if ip = [] then None
      else case r of
             [] \<Rightarrow> Some (of_nat (digits_value ip))
           | c # fp \<Rightarrow>
               if c = CHR ''.'' \<and> fp \<noteq> [] \<and> list_all is_digit fp
               then Some (of_nat (digits_value ip) + of_nat (digits_value fp) / 10 ^ length fp)
               else None)"

definition coerceNumberOrFail_spec :: "string \<Rightarrow> exn + rat" where
  "coerceNumberOrFail_spec val =
     (case (case val of
              [] \<Rightarrow> None
            | c # r \<Rightarrow> if c = CHR ''-'' then map_option uminus (unsigned_decimal r)
                       else unsigned_decimal val) of
        None \<Rightarrow> Inl Thrown
      | Some num \<Rightarrow> Inr num)"

definition utils_spec :: "rat utils" where
  "utils_spec =
     \<lparr>coerceNumberOrFail = coerceNumberOrFail_spec, isPositiveNumber = isPositiveNumber_spec\<rparr>"

text \<open>
  The texts that \<^verbatim>\<open>Math.random().toString(36)\<close> can give for a number of the interval
  from 0 (included) to 1: \<^verbatim>\<open>0\<close>, or \<^verbatim>\<open>0.\<close> and one or more base-36 digits.
\<close>

definition is_base36 :: "char \<Rightarrow> bool" where
  "is_base36 c = (is_digit c \<or> (97 \<le> (of_char c :: nat) \<and> (of_char c :: nat) \<le> 122))"

definition is_radix36 :: "string \<Rightarrow> bool" where
  "is_radix36 s =
     (s = ''0'' \<or> (prefix ''0.'' s \<and> drop 2 s \<noteq> [] \<and> list_all is_base36 (drop 2 s)))"

definition is_upper_alnum :: "char \<Rightarrow> bool" where
  "is_upper_alnum c = (is_digit c \<or> (65 \<le> (of_char c :: nat) \<and> (of_char c :: nat) \<le> 90))"

text \<open>
  The members of a serialised object, as text, as tokens and as parsed members; they
  state what \<^term>\<open>JSON_parse\<close> makes of the output of \<^term>\<open>JSON_stringify\<close>.
\<close>

definition defined_props :: "(string \<times> string option) list \<Rightarrow> (string \<times> string) list" where
  "defined_props props =
     concat (map (\<lambda>(k, v). case v of None \<Rightarrow> [] | Some s \<Rightarrow> [(k, s)]) props)"

definition member_text :: "string \<times> string \<Rightarrow> string" where
  "member_text m = QuoteJSONString (fst m) @ '':'' @ QuoteJSONString (snd m)"

definition member_tokens :: "string \<times> string \<Rightarrow> token list" where
  "member_tokens m = [TString (units (fst m)), TColon, TString (units (snd m))]"

fun members_tokens :: "(string \<times> string) list \<Rightarrow> token list" where
  "members_tokens [] = []"
| "members_tokens [m] = member_tokens m"
| "members_tokens (m # m' # ms) = member_tokens m @ TComma # members_tokens (m' # ms)"

definition json_member :: "string \<times> string \<Rightarrow> nat list \<times> json" where
  "json_member m = (units (fst m), JStr (units (snd m)))"

definition json_object :: "(string \<times> string option) list \<Rightarrow> json" where
  "json_object props = JObj (map json_member (defined_props props))"

text \<open>Sample values used in the examples that follow.\<close>

definition jane :: BuildingPermitForm where
  "jane =
     \<lparr>applicantName = ''Jane Doe'',
      propertyAddress = ''100 Main St, Philadelphia, PA 19101'',
      projectType = ''Deck/Patio Construction'',
      projectDescription = ''Build a 12x16 wood deck attached to rear of house'',
      estimatedCost = ''8500'',
      contractorLicense = Some []\<rparr>"

definition jane_wizard :: "int \<Rightarrow> wizard" where
  "jane_wizard n =
     \<lparr>currentStep = n, isClient = True,
      form = \<lparr>formValues = jane, defaultValues = initial_values\<rparr>,
      toasts = [], console = []\<rparr>"


definition negative_cost_wizard :: wizard where
  "negative_cost_wizard =
     \<lparr>currentStep = 3, isClient = True,
      form = \<lparr>formValues = jane\<lparr>estimatedCost := ''-50''\<rparr>, defaultValues = initial_values\<rparr>,
      toasts = [], console = []\<rparr>"

definition ohio :: string where
  "ohio = ''123 Main Street, Columbus, OH 43215''"

text \<open>
  A storage that holds the draft of these values, and the wizard that the load effect
  makes of it: the draft is the current and the default value of the form.
\<close>

definition jane_storage :: storage where
  "jane_storage = Map.empty(''buildingPermitDraft'' \<mapsto> JSON_stringify (form_props jane))"

definition restored_wizard :: "int \<Rightarrow> wizard" where
  "restored_wizard n =
     \<lparr>currentStep = n, isClient = True,
      form = \<lparr>formValues = jane, defaultValues = jane\<rparr>,
      toasts = [Info ''Draft application loaded''], console = []\<rparr>"


section \<open>Evaluation\<close>

lemmas char_of_eval = char_of_def bit_Suc_0_iff

lemma lower_pa: "toLowerCase ''pa'' = ''pa''"
  by (simp add: toLowerCase_def toLowerCase_char_def)

lemma lower_pennsylvania: "toLowerCase ''pennsylvania'' = ''pennsylvania''"
  by (simp add: toLowerCase_def toLowerCase_char_def)

lemma jane_applicantName: "applicantName_issues (applicantName jane) = []"
  by (simp add: jane_def applicantName_issues_def)

lemma jane_propertyAddress: "propertyAddress_issues (propertyAddress jane) = []"
  by (simp add: jane_def propertyAddress_issues_def propertyAddress_refine_def toLowerCase_def
      toLowerCase_char_def char_of_eval)

lemma jane_projectType: "projectType_issues (projectType jane) = []"
  by (simp add: jane_def projectType_issues_def)

lemma jane_projectDescription: "projectDescription_issues (projectDescription jane) = []"
  by (simp add: jane_def projectDescription_issues_def)

lemma coerce_8500: "coerceNumberOrFail utils_spec ''8500'' = Inr 8500"
  by (simp add: utils_spec_def coerceNumberOrFail_spec_def unsigned_decimal_def is_digit_def
      digits_value_def)

lemma coerce_minus_50: "coerceNumberOrFail utils_spec ''-50'' = Inr (- 50)"
  by (simp add: utils_spec_def coerceNumberOrFail_spec_def unsigned_decimal_def is_digit_def
      digits_value_def)

lemma coerce_abc: "coerceNumberOrFail utils_spec ''abc'' = Inl Thrown"
  by (simp add: utils_spec_def coerceNumberOrFail_spec_def unsigned_decimal_def is_digit_def)

lemma positive_spec: "isPositiveNumber utils_spec = isPositiveNumber_spec"
  by (simp add: utils_spec_def)

lemma jane_estimatedCost: "estimatedCost_issues utils_spec (estimatedCost jane) = []"
  by (simp add: jane_def estimatedCost_issues_def estimatedCost_refine_def coerce_8500
      positive_spec isPositiveNumber_spec_def)

lemma minus_50_estimatedCost: "estimatedCost_issues utils_spec ''-50'' \<noteq> []"
  by (simp add: estimatedCost_issues_def estimatedCost_refine_def coerce_minus_50
      positive_spec isPositiveNumber_spec_def)

lemma jane_contractorLicense: "contractorLicense_issues (contractorLicense jane) = []"
  by (simp add: jane_def contractorLicense_issues_def contractorLicense_refine_def)

lemma jane_valid: "schema_issues utils_spec jane = []"
  by (simp add: schema_issues_def schema_keys_def jane_applicantName jane_propertyAddress
      jane_projectType jane_projectDescription jane_estimatedCost jane_contractorLicense)


section \<open>Substrings\<close>

lemma includes_str_sublist: "includes_str s t \<longleftrightarrow> sublist t s"
  by (induction s) (simp_all add: sublist_Cons_right)

lemma sublist_map_iff: "sublist t (map f s) \<longleftrightarrow> (\<exists>w. sublist w s \<and> map f w = t)"
proof
  assume "sublist t (map f s)"
  then obtain ps ss where "map f s = ps @ (t @ ss)"
    by (auto simp: sublist_def)
  then obtain us vs where s: "s = us @ vs" and vs: "map f vs = t @ ss"
    by (metis map_eq_append_conv)
  from vs obtain b c where "vs = b @ c" "map f b = t"
    by (metis map_eq_append_conv)
  with s have "sublist b s" "map f b = t"
    by (auto simp: sublist_def)
  then show "\<exists>w. sublist w s \<and> map f w = t"
    by blast
next
  assume "\<exists>w. sublist w s \<and> map f w = t"
  then show "sublist t (map f s)"
    by (metis sublist_def map_append)
qed

lemma contains_ci_includes:
  "contains_ci s t \<longleftrightarrow> includes_str (toLowerCase s) (toLowerCase t)"
  by (simp add: contains_ci_def includes_str_sublist toLowerCase_def sublist_map_iff)

lemma propertyAddress_refine_ci:
  "propertyAddress_refine val \<longleftrightarrow> contains_ci val ''pa'' \<or> contains_ci val ''pennsylvania''"
  by (simp add: propertyAddress_refine_def contains_ci_includes lower_pa lower_pennsylvania)

lemma dropWhile_all: "(\<forall>x\<in>set (dropWhile P s). P x) \<longleftrightarrow> (\<forall>x\<in>set s. P x)"
proof
  assume a: "\<forall>x\<in>set (dropWhile P s). P x"
  have "dropWhile P s = []"
  proof (rule ccontr)
    assume "dropWhile P s \<noteq> []"
    then have "\<not> P (hd (dropWhile P s))" "hd (dropWhile P s) \<in> set (dropWhile P s)"
      by (simp_all add: hd_dropWhile)
    with a show False by blast
  qed
  then show "\<forall>x\<in>set s. P x"
    by (simp add: dropWhile_eq_Nil_conv)
next
  assume "\<forall>x\<in>set s. P x"
  then show "\<forall>x\<in>set (dropWhile P s). P x"
    by (meson set_dropWhileD)
qed

lemma trim_empty_iff: "trim s = [] \<longleftrightarrow> list_all is_whitespace s"
  by (simp add: trim_def list_all_iff dropWhile_all)

text \<open>
  What \<^term>\<open>trim\<close> removes and what it keeps: white space on both sides, around a middle
  part that neither starts nor ends with white space.
\<close>

lemma trim_decomposition:
  "\<exists>l r. s = l @ trim s @ r \<and> list_all is_whitespace l \<and> list_all is_whitespace r
     \<and> (trim s = [] \<or> (\<not> is_whitespace (hd (trim s)) \<and> \<not> is_whitespace (last (trim s))))"
proof -
  let ?P = is_whitespace
  let ?m = "dropWhile ?P s"
  have s: "s = takeWhile ?P s @ ?m"
    by simp
  have m: "?m = trim s @ rev (takeWhile ?P (rev ?m))"
  proof -
    have "rev (dropWhile ?P (rev ?m)) @ rev (takeWhile ?P (rev ?m))
          = rev (takeWhile ?P (rev ?m) @ dropWhile ?P (rev ?m))"
      by (simp only: rev_append)
    also have "\<dots> = rev (rev ?m)"
      by (simp only: takeWhile_dropWhile_id)
    also have "\<dots> = ?m"
      by (simp only: rev_rev_ident)
    finally have "rev (dropWhile ?P (rev ?m)) @ rev (takeWhile ?P (rev ?m)) = ?m" .
    then show ?thesis
      by (simp only: trim_def)
  qed
  have l: "list_all ?P (takeWhile ?P s)"
    by (auto simp: list_all_iff dest: set_takeWhileD)
  have r: "list_all ?P (rev (takeWhile ?P (rev ?m)))"
    by (auto simp: list_all_iff dest: set_takeWhileD)
  have e: "\<not> ?P (hd (trim s)) \<and> \<not> ?P (last (trim s))" if ne: "trim s \<noteq> []"
  proof -
    from ne have d: "dropWhile ?P (rev ?m) \<noteq> []"
      by (simp add: trim_def)
    then have la: "\<not> ?P (last (trim s))"
      by (simp add: trim_def last_rev hd_dropWhile)
    have mne: "?m \<noteq> []"
    proof
      assume "?m = []"
      then have "trim s = []"
        by (simp only: trim_def rev.simps dropWhile.simps)
      with ne show False by simp
    qed
    then have "\<not> ?P (hd ?m)"
      by (rule hd_dropWhile)
    moreover have "hd ?m = hd (trim s)"
      using m ne by (metis hd_append2)
    ultimately show ?thesis
      using la by simp
  qed
  from s m have "s = takeWhile ?P s @ trim s @ rev (takeWhile ?P (rev ?m))"
    by simp
  with l r e show ?thesis
    by blast
qed

lemma field_error_iff: "resolver_errors U d f = None \<longleftrightarrow> field_issues U d f = []"
  by (cases f)
    (auto simp: resolver_errors_def schema_issues_def schema_keys_def map_of_eq_None_iff image_iff)

lemma trigger_iff:
  "trigger U names fm \<longleftrightarrow> (\<forall>f\<in>set names. field_issues U (formValues fm) f = [])"
  by (simp add: trigger_def list_all_iff field_error_iff)

lemma projectType_issues_iff: "projectType_issues val = [] \<longleftrightarrow> val \<noteq> []"
  by (cases val) (simp_all add: projectType_issues_def)


section \<open>The validation rules\<close>

text \<open>
  C3 as stated does not hold: the value \<^verbatim>\<open>Castle\<close> passes the validation of projectType
  and is not one of the sixteen labels.
\<close>

theorem projectType_not_enumerated:
  "projectType_issues ''Castle'' = [] \<and> ''Castle'' \<notin> set PROJECT_TYPES"
  by (simp add: projectType_issues_def PROJECT_TYPES_def)

text \<open>
  C3 (amended): for every string value of projectType, validation of projectType
  succeeds exactly when the value is not empty; the selector offers sixteen distinct
  project-type labels, and each of them passes validation.
\<close>

theorem projectType_valid_iff_nonempty:
  "(projectType_issues val = [] \<longleftrightarrow> val \<noteq> [])
   \<and> length PROJECT_TYPES = 16 \<and> distinct PROJECT_TYPES
   \<and> list_all (\<lambda>t. projectType_issues t = []) PROJECT_TYPES"
proof -
  have "length PROJECT_TYPES = 16"
    by (simp add: PROJECT_TYPES_def)
  moreover have "distinct PROJECT_TYPES"
    by (simp add: PROJECT_TYPES_def)
  moreover have "list_all (\<lambda>t. projectType_issues t = []) PROJECT_TYPES"
    by (simp add: PROJECT_TYPES_def projectType_issues_def)
  ultimately show ?thesis
    using projectType_issues_iff by blast
qed

text \<open>
  C4: a propertyAddress that contains neither \<^verbatim>\<open>pa\<close> nor \<^verbatim>\<open>pennsylvania\<close> as a
  case-insensitive substring fails validation, whatever the other fields and the helper
  functions are: the schema raises an issue for it, the resolver reports an error under
  its path for all form values that hold it, and every \<^verbatim>\<open>trigger\<close> that names the field
  fails. And a propertyAddress passes only if its length is between 10 and 200 and it
  contains such a substring.
\<close>

theorem propertyAddress_requires_pa:
  "(\<not> contains_ci (propertyAddress d) ''pa''
      \<and> \<not> contains_ci (propertyAddress d) ''pennsylvania'' \<longrightarrow>
      propertyAddress_issues (propertyAddress d) \<noteq> []
      \<and> resolver_errors U d PropertyAddress \<noteq> None
      \<and> (PropertyAddress \<in> set names \<longrightarrow>
            \<not> trigger U names \<lparr>formValues = d, defaultValues = dv\<rparr>))
   \<and> (propertyAddress_issues (propertyAddress d) = [] \<longrightarrow>
        10 \<le> length (propertyAddress d) \<and> length (propertyAddress d) \<le> 200
        \<and> (contains_ci (propertyAddress d) ''pa''
            \<or> contains_ci (propertyAddress d) ''pennsylvania''))"
proof -
  let ?addr = "propertyAddress d"
  have refine: "propertyAddress_issues ?addr = [] \<Longrightarrow> propertyAddress_refine ?addr"
    by (simp add: propertyAddress_issues_def split: if_splits)
  have len: "propertyAddress_issues ?addr = [] \<Longrightarrow> 10 \<le> length ?addr \<and> length ?addr \<le> 200"
    by (simp add: propertyAddress_issues_def split: if_splits)
  have fails: "propertyAddress_issues ?addr \<noteq> []"
    if "\<not> contains_ci ?addr ''pa''" "\<not> contains_ci ?addr ''pennsylvania''"
    using that refine propertyAddress_refine_ci by blast
  have err: "resolver_errors U d PropertyAddress \<noteq> None"
    if "propertyAddress_issues ?addr \<noteq> []"
    using that by (simp add: field_error_iff)
  have trg: "\<not> trigger U names \<lparr>formValues = d, defaultValues = dv\<rparr>"
    if "propertyAddress_issues ?addr \<noteq> []" "PropertyAddress \<in> set names"
  proof
    assume "trigger U names \<lparr>formValues = d, defaultValues = dv\<rparr>"
    with that(2) have "field_issues U d PropertyAddress = []"
      unfolding trigger_iff by auto
    with that(1) show False by simp
  qed
  show ?thesis
    using refine len fails err trg propertyAddress_refine_ci by blast
qed

text \<open>
  C4, examples: the address in Columbus, Ohio, of the specification has no such
  substring and is refused, the other fields being valid; the address in Philadelphia
  passes.
\<close>

theorem propertyAddress_requires_pa_witness:
  "\<not> contains_ci ohio ''pa'' \<and> \<not> contains_ci ohio ''pennsylvania''
   \<and> propertyAddress_issues ohio \<noteq> []
   \<and> \<not> trigger utils_spec [PropertyAddress]
         \<lparr>formValues = jane\<lparr>propertyAddress := ohio\<rparr>, defaultValues = initial_values\<rparr>
   \<and> propertyAddress_issues (propertyAddress jane) = []
   \<and> 10 \<le> length (propertyAddress jane) \<and> length (propertyAddress jane) \<le> 200
   \<and> contains_ci (propertyAddress jane) ''pa''"
proof -
  have a: "\<not> contains_ci ohio ''pa''"
    by (simp add: contains_ci_includes ohio_def toLowerCase_def toLowerCase_char_def
        char_of_eval)
  have b: "\<not> contains_ci ohio ''pennsylvania''"
    by (simp add: contains_ci_includes ohio_def toLowerCase_def toLowerCase_char_def
        char_of_eval)
  have c: "contains_ci (propertyAddress jane) ''pa''"
    by (simp add: contains_ci_includes jane_def toLowerCase_def toLowerCase_char_def
        char_of_eval)
  show ?thesis
    using a b c jane_propertyAddress
      propertyAddress_requires_pa
        [of "jane\<lparr>propertyAddress := ohio\<rparr>" utils_spec "[PropertyAddress]" initial_values]
      propertyAddress_requires_pa [of jane]
    by simp
qed

text \<open>
  C6: the refinement of estimatedCost never throws; validation succeeds exactly when
  the coercion returns a number that \<^verbatim>\<open>isPositiveNumber\<close> accepts; a string on which the
  coercion fails gives the result \<^verbatim>\<open>false\<close> and so a validation failure. With
  \<^verbatim>\<open>isPositiveNumber\<close> as the specification describes it, validation succeeds exactly when
  the string is coerced to a strictly positive number.
\<close>

theorem estimatedCost_positive_or_failure:
  fixes U :: "rat utils"
  shows
  "(\<exists>b. estimatedCost_refine U val = Inr b)
   \<and> (estimatedCost_issues U val = [] \<longleftrightarrow>
        (\<exists>num. coerceNumberOrFail U val = Inr num \<and> isPositiveNumber U num = Inr True))
   \<and> (\<forall>e. coerceNumberOrFail U val = Inl e \<longrightarrow>
        estimatedCost_refine U val = Inr False \<and> estimatedCost_issues U val \<noteq> [])
   \<and> (isPositiveNumber U = isPositiveNumber_spec \<longrightarrow>
        (estimatedCost_issues U val = [] \<longleftrightarrow>
          (\<exists>num. coerceNumberOrFail U val = Inr num \<and> 0 < num)))"
proof -
  have 1: "\<exists>b. estimatedCost_refine U val = Inr b"
  proof (cases "coerceNumberOrFail U val")
    case (Inl e)
    then have "estimatedCost_refine U val = Inr False"
      by (simp add: estimatedCost_refine_def)
    then show ?thesis ..
  next
    case (Inr num)
    then have "estimatedCost_refine U val =
        (case isPositiveNumber U num of Inl e \<Rightarrow> Inr False | Inr b \<Rightarrow> Inr b)"
      by (simp add: estimatedCost_refine_def)
    then show ?thesis
      by (cases "isPositiveNumber U num") auto
  qed
  have 2: "estimatedCost_issues U val = [] \<longleftrightarrow>
        (\<exists>num. coerceNumberOrFail U val = Inr num \<and> isPositiveNumber U num = Inr True)"
    by (auto simp: estimatedCost_issues_def estimatedCost_refine_def split: sum.splits)
  have 3: "\<forall>e. coerceNumberOrFail U val = Inl e \<longrightarrow>
        estimatedCost_refine U val = Inr False \<and> estimatedCost_issues U val \<noteq> []"
    by (simp add: estimatedCost_issues_def estimatedCost_refine_def)
  have 4: "isPositiveNumber U = isPositiveNumber_spec \<longrightarrow>
        (estimatedCost_issues U val = [] \<longleftrightarrow>
          (\<exists>num. coerceNumberOrFail U val = Inr num \<and> 0 < num))"
    unfolding 2 by (simp add: isPositiveNumber_spec_def)
  from 1 2 3 4 show ?thesis
    by blast
qed

text \<open>
  C6, examples: on \<^verbatim>\<open>abc\<close> the coercion throws and the validation fails without a throw;
  \<^verbatim>\<open>8500\<close> is coerced to a positive number and passes.
\<close>

theorem estimatedCost_positive_or_failure_witness:
  "coerceNumberOrFail utils_spec ''abc'' = Inl Thrown
   \<and> estimatedCost_refine utils_spec ''abc'' = Inr False
   \<and> estimatedCost_issues utils_spec ''abc'' \<noteq> []
   \<and> isPositiveNumber utils_spec = isPositiveNumber_spec
   \<and> coerceNumberOrFail utils_spec ''8500'' = Inr 8500
   \<and> estimatedCost_issues utils_spec ''8500'' = []"
  using coerce_abc positive_spec coerce_8500
    estimatedCost_positive_or_failure [of utils_spec "''abc''"]
    estimatedCost_positive_or_failure [of utils_spec "''8500''"]
  by simp

text \<open>
  C7 as stated does not hold: the license \<^verbatim>\<open>AB12\<close> followed by a space is present and
  not blank, it does not match the pattern, and it passes validation.
\<close>

theorem license_with_trailing_space:
  "contractorLicense_refine (Some ''AB12 '') \<and> \<not> list_all is_whitespace ''AB12 ''
   \<and> \<not> test_alnum ''AB12 ''"
  by (simp add: contractorLicense_refine_def trim_def is_whitespace_def test_alnum_def
      is_alnum_def)

text \<open>
  C7 (amended): for every contractorLicense value, validation succeeds if the value is
  absent or consists only of white space; if the value is present and not blank,
  validation succeeds if and only if the value without its leading and trailing white
  space matches the pattern \<^verbatim>\<open>^[A-Za-z0-9]+$\<close>.
\<close>

theorem contractorLicense_trimmed_alnum:
  "contractorLicense_refine None
   \<and> (list_all is_whitespace s \<longrightarrow> contractorLicense_refine (Some s))
   \<and> (\<not> list_all is_whitespace s \<longrightarrow>
        (contractorLicense_refine (Some s) \<longleftrightarrow> test_alnum (trim s)))"
proof -
  have "s = [] \<Longrightarrow> list_all is_whitespace s"
    by simp
  then show ?thesis
    unfolding contractorLicense_refine_def using trim_empty_iff [of s] by auto
qed

text \<open>
  C7, examples: three spaces pass as a blank value; the license with a space at its end
  passes since its trimmed form matches; a license with a space inside is refused.
\<close>

theorem contractorLicense_trimmed_alnum_witness:
  "list_all is_whitespace ''   '' \<and> contractorLicense_refine (Some ''   '')
   \<and> \<not> list_all is_whitespace ''AB12 '' \<and> test_alnum (trim ''AB12 '')
   \<and> contractorLicense_refine (Some ''AB12 '')
   \<and> \<not> list_all is_whitespace ''AB 12'' \<and> \<not> test_alnum (trim ''AB 12'')
   \<and> \<not> contractorLicense_refine (Some ''AB 12'')"
proof -
  have a: "list_all is_whitespace ''   ''"
    by (simp add: is_whitespace_def)
  have b: "\<not> list_all is_whitespace ''AB12 ''" "test_alnum (trim ''AB12 '')"
    by (simp_all add: is_whitespace_def trim_def test_alnum_def is_alnum_def)
  have c: "\<not> list_all is_whitespace ''AB 12''" "\<not> test_alnum (trim ''AB 12'')"
    by (simp_all add: is_whitespace_def trim_def test_alnum_def is_alnum_def)
  show ?thesis
    using a b c
      contractorLicense_trimmed_alnum [of "''   ''"]
      contractorLicense_trimmed_alnum [of "''AB12 ''"]
      contractorLicense_trimmed_alnum [of "''AB 12''"]
    by simp
qed

text \<open>
  C10 as stated does not hold: the refinement accepts \<^verbatim>\<open>Pennsylvania\<close>, whose lowercase
  form does not contain \<^verbatim>\<open>pa\<close>.
\<close>

theorem pennsylvania_without_pa:
  "propertyAddress_refine ''Pennsylvania'' \<and> \<not> sublist ''pa'' (toLowerCase ''Pennsylvania'')"
  by (simp add: propertyAddress_refine_def toLowerCase_def toLowerCase_char_def char_of_eval
      sublist_Cons_right)

text \<open>
  C10 (amended): for every string \<open>s\<close>, the Pennsylvania-indicator refinement of
  propertyAddress accepts \<open>s\<close> if and only if the lowercase form of \<open>s\<close> contains the
  substring \<^verbatim>\<open>pa\<close> or the substring \<^verbatim>\<open>pennsylvania\<close>; the second disjunct is not
  redundant, since \<^verbatim>\<open>pennsylvania\<close> does not contain \<^verbatim>\<open>pa\<close>.
\<close>

theorem propertyAddress_refine_sublist:
  "(propertyAddress_refine s \<longleftrightarrow>
      sublist ''pa'' (toLowerCase s) \<or> sublist ''pennsylvania'' (toLowerCase s))
   \<and> \<not> sublist ''pa'' ''pennsylvania''"
proof -
  have "\<not> sublist ''pa'' ''pennsylvania''"
    by (simp add: sublist_Cons_right)
  then show ?thesis
    by (simp add: propertyAddress_refine_def includes_str_sublist)
qed


section \<open>Step progression\<close>

text \<open>
  C2: for every wizard state, \<^verbatim>\<open>nextStep\<close> (the spec's advanceStep) leaves currentStep
  unchanged when one of the fields of the current step fails validation, and sets it to
  the minimum of currentStep + 1 and 4 when all of them pass; the form is not changed.
  The fields of the steps are: step 1 applicantName; step 2 propertyAddress,
  projectType, projectDescription; step 3 estimatedCost, contractorLicense; step 4
  none.
\<close>

theorem nextStep_gated:
  "(list_ex (\<lambda>f. field_issues U (formValues (form w)) f \<noteq> [])
      (getFieldsForStep (currentStep w)) \<longrightarrow>
      currentStep (nextStep U w) = currentStep w)
   \<and> (list_all (\<lambda>f. field_issues U (formValues (form w)) f = [])
        (getFieldsForStep (currentStep w)) \<longrightarrow>
      currentStep (nextStep U w) = min (currentStep w + 1) 4)
   \<and> form (nextStep U w) = form w
   \<and> getFieldsForStep 1 = [ApplicantName]
   \<and> getFieldsForStep 2 = [PropertyAddress, ProjectType, ProjectDescription]
   \<and> getFieldsForStep 3 = [EstimatedCost, ContractorLicense]
   \<and> getFieldsForStep 4 = []"
proof -
  let ?fs = "getFieldsForStep (currentStep w)"
  have t: "trigger U ?fs (form w) \<longleftrightarrow>
      list_all (\<lambda>f. field_issues U (formValues (form w)) f = []) ?fs"
    by (simp add: trigger_iff list_all_iff)
  have e: "list_ex (\<lambda>f. field_issues U (formValues (form w)) f \<noteq> []) ?fs \<longleftrightarrow>
      \<not> trigger U ?fs (form w)"
    by (simp add: trigger_iff list_ex_iff)
  have n: "int (length FORM_STEPS) = 4"
    by (simp add: FORM_STEPS_def)
  have 1: "\<not> trigger U ?fs (form w) \<Longrightarrow> currentStep (nextStep U w) = currentStep w"
    by (simp add: nextStep_def)
  have 2: "trigger U ?fs (form w) \<Longrightarrow> currentStep (nextStep U w) = min (currentStep w + 1) 4"
    by (simp add: nextStep_def n)
  have 3: "form (nextStep U w) = form w"
    by (simp add: nextStep_def Let_def)
  show ?thesis
    using 1 2 3 t e by (simp add: getFieldsForStep_def)
qed

text \<open>
  C2, examples: at step 3 the estimated cost \<^verbatim>\<open>-50\<close> keeps the wizard at step 3; with the
  values of the specification's scenario the wizard moves from step 3 to step 4, and
  from step 4 it stays at step 4.
\<close>

theorem nextStep_gated_witness:
  "list_ex (\<lambda>f. field_issues utils_spec (formValues (form negative_cost_wizard)) f \<noteq> [])
      (getFieldsForStep (currentStep negative_cost_wizard))
   \<and> currentStep (nextStep utils_spec negative_cost_wizard) = 3
   \<and> list_all (\<lambda>f. field_issues utils_spec (formValues (form (jane_wizard 3))) f = [])
        (getFieldsForStep (currentStep (jane_wizard 3)))
   \<and> currentStep (nextStep utils_spec (jane_wizard 3)) = 4
   \<and> currentStep (nextStep utils_spec (jane_wizard 4)) = 4"
proof -
  have a: "list_ex (\<lambda>f. field_issues utils_spec (formValues (form negative_cost_wizard)) f \<noteq> [])
      (getFieldsForStep (currentStep negative_cost_wizard))"
    using minus_50_estimatedCost
    by (simp add: negative_cost_wizard_def getFieldsForStep_def)
  have b: "list_all (\<lambda>f. field_issues utils_spec (formValues (form (jane_wizard 3))) f = [])
        (getFieldsForStep (currentStep (jane_wizard 3)))"
    using jane_estimatedCost jane_contractorLicense
    by (simp add: jane_wizard_def getFieldsForStep_def)
  have c: "list_all (\<lambda>f. field_issues utils_spec (formValues (form (jane_wizard 4))) f = [])
        (getFieldsForStep (currentStep (jane_wizard 4)))"
    by (simp add: jane_wizard_def getFieldsForStep_def)
  have s: "currentStep negative_cost_wizard = 3" "currentStep (jane_wizard 3) = 3"
    "currentStep (jane_wizard 4) = 4"
    by (simp_all add: negative_cost_wizard_def jane_wizard_def)
  show ?thesis
    using a b c s
      nextStep_gated [of utils_spec negative_cost_wizard]
      nextStep_gated [of utils_spec "jane_wizard 3"]
      nextStep_gated [of utils_spec "jane_wizard 4"]
    by simp
qed


section \<open>The application identifier\<close>

lemma of_char_digit_char: "d < 10 \<Longrightarrow> (of_char (digit_char d) :: nat) = 48 + d"
  by (simp add: digit_char_def)

lemma string_of_nat_digits: "list_all is_digit (string_of_nat n)"
proof (induction n rule: string_of_nat.induct)
  case (1 n)
  show ?case
  proof (cases "n < 10")
    case True
    then show ?thesis
      by (subst string_of_nat.simps) (simp add: is_digit_def of_char_digit_char)
  next
    case False
    have "n mod 10 < 10" by simp
    then have "is_digit (digit_char (n mod 10))"
      unfolding is_digit_def by (simp add: of_char_digit_char)
    with False "1.IH" show ?thesis
      by (subst string_of_nat.simps) simp
  qed
qed

lemma string_of_nat_nonempty: "string_of_nat n \<noteq> []"
  by (subst string_of_nat.simps) simp

lemma digits_value_snoc: "digits_value (s @ [c]) = 10 * digits_value s + (of_char c - 48)"
  by (simp add: digits_value_def)

lemma digits_value_string_of_nat: "digits_value (string_of_nat n) = n"
proof (induction n rule: string_of_nat.induct)
  case (1 n)
  show ?case
  proof (cases "n < 10")
    case True
    then show ?thesis
      by (subst string_of_nat.simps) (simp add: digits_value_def of_char_digit_char)
  next
    case False
    have "n mod 10 < 10" by simp
    then have "(of_char (digit_char (n mod 10)) :: nat) - 48 = n mod 10"
      by (simp add: of_char_digit_char)
    with False "1.IH" show ?thesis
      by (subst string_of_nat.simps) (simp add: digits_value_snoc)
  qed
qed

lemma string_of_nat_inj: "string_of_nat m = string_of_nat n \<Longrightarrow> m = n"
  by (metis digits_value_string_of_nat)

lemma minus_not_digit: "\<not> is_digit CHR ''-''"
  by (simp add: is_digit_def)

lemma string_of_int_inj: "string_of_int i = string_of_int j \<Longrightarrow> i = j"
proof -
  assume eq: "string_of_int i = string_of_int j"
  have nd: "string_of_nat n \<noteq> CHR ''-'' # s" for n s
    using string_of_nat_digits [of n] minus_not_digit by (cases "string_of_nat n") auto
  show ?thesis
  proof (cases "i < 0"; cases "j < 0")
    assume "i < 0" "j < 0"
    with eq have "nat (- i) = nat (- j)"
      by (simp add: string_of_int_def string_of_nat_inj)
    with \<open>i < 0\<close> \<open>j < 0\<close> show ?thesis by simp
  next
    assume "i < 0" "\<not> j < 0"
    with eq nd show ?thesis
      by (simp add: string_of_int_def) metis
  next
    assume "\<not> i < 0" "j < 0"
    with eq nd show ?thesis
      by (simp add: string_of_int_def)
  next
    assume "\<not> i < 0" "\<not> j < 0"
    with eq have "nat i = nat j"
      by (simp add: string_of_int_def string_of_nat_inj)
    with \<open>\<not> i < 0\<close> \<open>\<not> j < 0\<close> show ?thesis by simp
  qed
qed

lemma split_at_last:
  assumes "xs @ c # ys = xs' @ c # ys'" "c \<notin> set ys" "c \<notin> set ys'"
  shows "xs = xs' \<and> ys = ys'"
  using assms
  by (auto simp: append_eq_append_conv2 append_eq_Cons_conv Cons_eq_append_conv)

lemma toUpperCase_base36: "is_base36 c \<Longrightarrow> is_upper_alnum (toUpperCase_char c)"
proof -
  assume b: "is_base36 c"
  let ?n = "of_char c :: nat"
  show ?thesis
  proof (cases "97 \<le> ?n \<and> ?n \<le> 122")
    case True
    then have "toUpperCase_char c = char_of (?n - 32)"
      by (simp add: toUpperCase_char_def)
    moreover have "?n - 32 < 256"
      using nat_of_char_less_256 [of c] by arith
    then have "(of_char (char_of (?n - 32)) :: nat) = ?n - 32"
      by simp
    ultimately show ?thesis
      using True by (simp add: is_upper_alnum_def) arith
  next
    case False
    with b have d: "is_digit c"
      by (simp add: is_base36_def)
    then have "toUpperCase_char c = c"
      by (auto simp: toUpperCase_char_def is_digit_def)
    with d show ?thesis
      by (simp add: is_upper_alnum_def)
  qed
qed

lemma dash_not_upper_alnum: "\<not> is_upper_alnum CHR ''-''"
  by (simp add: is_upper_alnum_def is_digit_def)

lemma suffix_upper_alnum:
  "is_radix36 r \<Longrightarrow> list_all is_upper_alnum (toUpperCase (substr r 2 9))"
proof -
  assume "is_radix36 r"
  then have "list_all is_base36 (drop 2 r)"
    by (auto simp: is_radix36_def)
  then have "list_all is_base36 (take 9 (drop 2 r))"
    by (auto simp: list_all_iff dest: in_set_takeD)
  then show ?thesis
    by (auto simp: toUpperCase_def substr_def list_all_iff toUpperCase_base36)
qed

text \<open>
  C5: the claim asks for a suffix of 9 characters, and \<^verbatim>\<open>substr(2, 9)\<close> aims at 9, but
  the code takes what the base-36 numeral of the random number has. When
  \<^verbatim>\<open>Math.random()\<close> returns one half the numeral is \<^verbatim>\<open>0.i\<close> and the suffix of the
  identifier is the single character \<^verbatim>\<open>I\<close>; when it returns zero the numeral is \<^verbatim>\<open>0\<close>
  and the suffix is empty.
\<close>

theorem short_random_suffix:
  "is_radix36 ''0.i''
   \<and> applicationId 1700000000000 ''0.i'' = ''PA-1700000000000-I''
   \<and> toUpperCase (substr ''0.i'' 2 9) = ''I''
   \<and> is_radix36 ''0''
   \<and> applicationId 1700000000000 ''0'' = ''PA-1700000000000-''"
  by (simp add: is_radix36_def is_base36_def is_digit_def applicationId_def
      string_of_int_def string_of_nat.simps digit_char_def substr_def toUpperCase_def
      toUpperCase_char_def char_of_eval)

text \<open>
  What every generated identifier does have: \<^verbatim>\<open>PA-\<close>, the decimal numeral of the time
  component, \<^verbatim>\<open>-\<close>, and uppercase alphanumeric characters, as many as the random
  number has base-36 digits and 9 at most. Two identifiers are equal exactly when their
  time components are equal and their suffixes are equal; nothing is said of how
  probable that is.
\<close>

lemma applicationId_shape:
  "is_radix36 random36 \<longrightarrow>
     applicationId now random36 =
       ''PA-'' @ string_of_int now @ ''-'' @ toUpperCase (substr random36 2 9)
     \<and> string_of_int now \<noteq> []
     \<and> list_all (\<lambda>c. is_digit c \<or> c = CHR ''-'') (string_of_int now)
     \<and> list_all is_upper_alnum (toUpperCase (substr random36 2 9))
     \<and> length (toUpperCase (substr random36 2 9)) = min 9 (length random36 - 2)
     \<and> (\<forall>now' random36'. is_radix36 random36' \<longrightarrow>
          (applicationId now random36 = applicationId now' random36' \<longleftrightarrow>
             now = now'
             \<and> toUpperCase (substr random36 2 9) = toUpperCase (substr random36' 2 9)))"
proof
  assume r: "is_radix36 random36"
  let ?sfx = "\<lambda>r. toUpperCase (substr r 2 9)"
  have 1: "string_of_int now \<noteq> []"
    by (simp add: string_of_int_def string_of_nat_nonempty)
  have 2: "list_all (\<lambda>c. is_digit c \<or> c = CHR ''-'') (string_of_int now)"
    using string_of_nat_digits by (auto simp: string_of_int_def list_all_iff)
  have 3: "list_all is_upper_alnum (?sfx random36)"
    using r by (rule suffix_upper_alnum)
  have 4: "length (?sfx random36) = min 9 (length random36 - 2)"
    by (simp add: toUpperCase_def substr_def)
  have 5: "applicationId now random36 = applicationId now' random36' \<longleftrightarrow>
             now = now' \<and> ?sfx random36 = ?sfx random36'"
    if r': "is_radix36 random36'" for now' random36'
  proof
    assume "applicationId now random36 = applicationId now' random36'"
    then have eq: "string_of_int now @ CHR ''-'' # ?sfx random36
                 = string_of_int now' @ CHR ''-'' # ?sfx random36'"
      by (simp add: applicationId_def)
    have "CHR ''-'' \<notin> set (?sfx random36)" "CHR ''-'' \<notin> set (?sfx random36')"
      using suffix_upper_alnum [OF r] suffix_upper_alnum [OF r'] dash_not_upper_alnum
      by (auto simp: list_all_iff)
    with eq have "string_of_int now = string_of_int now' \<and> ?sfx random36 = ?sfx random36'"
      by (rule split_at_last)
    then show "now = now' \<and> ?sfx random36 = ?sfx random36'"
      using string_of_int_inj by blast
  next
    assume "now = now' \<and> ?sfx random36 = ?sfx random36'"
    then show "applicationId now random36 = applicationId now' random36'"
      by (simp add: applicationId_def)
  qed
  show "applicationId now random36 =
       ''PA-'' @ string_of_int now @ ''-'' @ toUpperCase (substr random36 2 9)
     \<and> string_of_int now \<noteq> []
     \<and> list_all (\<lambda>c. is_digit c \<or> c = CHR ''-'') (string_of_int now)
     \<and> list_all is_upper_alnum (toUpperCase (substr random36 2 9))
     \<and> length (toUpperCase (substr random36 2 9)) = min 9 (length random36 - 2)
     \<and> (\<forall>now' random36'. is_radix36 random36' \<longrightarrow>
          (applicationId now random36 = applicationId now' random36' \<longleftrightarrow>
             now = now'
             \<and> toUpperCase (substr random36 2 9) = toUpperCase (substr random36' 2 9)))"
    using 1 2 3 4 5 by (simp add: applicationId_def)
qed

text \<open>A random number with eleven base-36 digits gives a suffix of nine characters.\<close>

lemma applicationId_shape_example:
  "is_radix36 ''0.4fzyo82mvyr''
   \<and> applicationId 1700000000000 ''0.4fzyo82mvyr'' = ''PA-1700000000000-4FZYO82MV''
   \<and> length (toUpperCase (substr ''0.4fzyo82mvyr'' 2 9)) = 9
   \<and> list_all is_upper_alnum (toUpperCase (substr ''0.4fzyo82mvyr'' 2 9))"
proof -
  have a: "is_radix36 ''0.4fzyo82mvyr''"
    by (simp add: is_radix36_def is_base36_def is_digit_def)
  have b: "string_of_int 1700000000000 = ''1700000000000''"
    by (simp add: string_of_int_def string_of_nat.simps digit_char_def char_of_eval)
  have c: "toUpperCase (substr ''0.4fzyo82mvyr'' 2 9) = ''4FZYO82MV''"
    by (simp add: substr_def toUpperCase_def toUpperCase_char_def char_of_eval)
  show ?thesis
    using a applicationId_shape [of "''0.4fzyo82mvyr''" 1700000000000]
    by (simp add: b c)
qed


section \<open>Serialisation and parsing\<close>

lemma hexval_hex_digit: "k < 16 \<Longrightarrow> hexval (hex_digit k) = Some k"
proof -
  assume "k < 16"
  then have "k \<in> {0, 1, 2, 3, 4, 5, 6, 7, 8, 9, 10, 11, 12, 13, 14, 15}"
    by simp arith
  then show ?thesis
    by (elim insertE emptyE) (simp_all add: hex_digit_def hexval_def)
qed

lemma hex4_control:
  "n < 32 \<Longrightarrow> hex4 [CHR ''0'', CHR ''0'', hex_digit (n div 16), hex_digit (n mod 16)] = Some n"
proof -
  assume n: "n < 32"
  then have "n div 16 < 16" by simp
  then have a: "hexval (hex_digit (n div 16)) = Some (n div 16)"
    by (rule hexval_hex_digit)
  have b: "hexval (hex_digit (n mod 16)) = Some (n mod 16)"
    by (rule hexval_hex_digit) simp
  have z: "hexval CHR ''0'' = Some 0"
    by (simp add: hexval_def)
  show ?thesis
    by (simp add: hex4_def a b z)
qed

text \<open>Scanning the escaped form of a character gives the character back.\<close>

lemma scan_quote_char:
  "scan_string (quote_char c @ rest) =
     map_option (\<lambda>(s, r). (of_char c # s, r)) (scan_string rest)"
proof -
  let ?n = "of_char c :: nat"
  have bs: "backslash \<noteq> dquote" "CHR ''u'' \<noteq> dquote"
    by (simp_all add: backslash_def dquote_def)
  consider (b) "?n = 8" | (t) "?n = 9" | (n) "?n = 10" | (f) "?n = 12" | (r) "?n = 13"
    | (q) "c = dquote" | (s) "c = backslash"
    | (u) "?n < 32" "?n \<notin> {8, 9, 10, 12, 13}"
    | (o) "32 \<le> ?n" "c \<noteq> dquote" "c \<noteq> backslash"
    by force
  then show ?thesis
  proof cases
    case u
    then have q: "quote_char c =
        [backslash, CHR ''u'', CHR ''0'', CHR ''0'', hex_digit (?n div 16), hex_digit (?n mod 16)]"
      by (auto simp: quote_char_def Let_def dquote_def backslash_def)
    show ?thesis
      unfolding q using hex4_control [OF u(1)] by (simp add: bs)
  next
    case o
    then have q: "quote_char c = [c]"
      by (auto simp: quote_char_def Let_def)
    show ?thesis
      unfolding q using o by simp
  next
    case q
    then show ?thesis
      by (simp add: quote_char_def Let_def dquote_def backslash_def unescape_def)
  next
    case s
    then show ?thesis
      by (simp add: quote_char_def Let_def dquote_def backslash_def unescape_def)
  qed (simp_all add: quote_char_def Let_def dquote_def backslash_def unescape_def)
qed

lemma scan_quoted:
  "scan_string (concat (map quote_char s) @ dquote # rest) = Some (units s, rest)"
  by (induction s) (simp_all add: units_def scan_quote_char)

lemma lex_quoted:
  "lex (QuoteJSONString k @ rest) = map_option ((#) (TString (units k))) (lex rest)"
proof -
  have "\<not> is_json_ws dquote" "dquote \<notin> set ''{}[]:,''"
    by (simp_all add: is_json_ws_def dquote_def)
  then show ?thesis
    by (simp add: QuoteJSONString_def scan_quoted)
qed

lemma lex_colon: "lex (CHR '':'' # rest) = map_option ((#) TColon) (lex rest)"
  by (simp add: is_json_ws_def)

lemma lex_comma: "lex (CHR '','' # rest) = map_option ((#) TComma) (lex rest)"
  by (simp add: is_json_ws_def)

lemma lex_close: "lex ''}'' = Some [TRBrace]"
  by (simp add: is_json_ws_def)

lemma lex_open: "lex (CHR ''{'' # rest) = map_option ((#) TLBrace) (lex rest)"
  by (simp add: is_json_ws_def)

lemma lex_42: "lex ''42'' = Some [TNumber ''42'']"
  by (simp add: is_json_ws_def is_digit_def dquote_def is_num_char_def num_ok_def num_int_def
      num_frac_def num_exp_def)

lemma lex_not_json: "lex ''{not json'' = None"
  by (simp add: is_json_ws_def is_digit_def dquote_def)

declare lex.simps [simp del]

lemma lex_member:
  "lex (member_text m @ rest) = map_option ((@) (member_tokens m)) (lex rest)"
  by (cases "lex rest") (simp_all add: member_text_def member_tokens_def lex_quoted lex_colon)

lemma lex_members:
  "lex (join_commas (map member_text ms) @ ''}'') = Some (members_tokens ms @ [TRBrace])"
proof (induction ms rule: members_tokens.induct)
  case 1
  show ?case by (simp add: lex_close)
next
  case (2 m)
  show ?case by (simp add: lex_member lex_close)
next
  case (3 m m' ms)
  then show ?case
    by (simp add: lex_member lex_comma)
qed

lemma run_member:
  "run (PKey acc st) (member_tokens m @ ts) =
     run (PAfter (JStr (units (snd m))) (FObj acc (units (fst m)) # st)) ts"
  by (simp add: member_tokens_def)

lemma run_members:
  "ms \<noteq> [] \<Longrightarrow>
   run (PKey acc st) (members_tokens ms @ [TRBrace]) =
     Some (PAfter (JObj (rev acc @ map json_member ms)) st)"
proof (induction ms arbitrary: acc rule: members_tokens.induct)
  case 1
  then show ?case by simp
next
  case (2 m)
  show ?case
    by (simp add: run_member json_member_def)
next
  case (3 m m' ms)
  have "run (PKey acc st) (members_tokens (m # m' # ms) @ [TRBrace]) =
        run (PKey ((units (fst m), JStr (units (snd m))) # acc) st)
          (members_tokens (m' # ms) @ [TRBrace])"
    by (simp add: run_member)
  also have "\<dots> = Some (PAfter (JObj (rev ((units (fst m), JStr (units (snd m))) # acc)
                       @ map json_member (m' # ms))) st)"
    by (rule "3.IH") simp
  finally show ?case
    by (simp add: json_member_def)
qed

lemma run_object:
  "run (PValue st) (TLBrace # members_tokens ms @ [TRBrace]) =
     Some (PAfter (JObj (map json_member ms)) st)"
proof (cases ms)
  case Nil
  then show ?thesis by simp
next
  case (Cons m ms')
  have "run (PObjStart st) (members_tokens ms @ [TRBrace]) =
        run (PKey [] st) (members_tokens ms @ [TRBrace])"
    unfolding Cons by (cases ms') (simp_all add: member_tokens_def)
  then show ?thesis
    using run_members [of ms "[]" st] Cons by simp
qed

lemma JSON_stringify_members:
  "JSON_stringify props =
     CHR ''{'' # join_commas (map member_text (defined_props props)) @ ''}''"
proof -
  have "concat (map (\<lambda>(k, v). case v of
                               None \<Rightarrow> []
                             | Some s \<Rightarrow> [QuoteJSONString k @ '':'' @ QuoteJSONString s]) props)
        = map member_text (defined_props props)"
    by (induction props) (auto simp: defined_props_def member_text_def split: option.splits)
  then show ?thesis
    by (simp add: JSON_stringify_def)
qed

text \<open>
  Parsing what \<^term>\<open>JSON_stringify\<close> has written gives the object of the properties that
  were defined, in their order.
\<close>

lemma JSON_parse_stringify: "JSON_parse (JSON_stringify props) = Inr (json_object props)"
  by (simp add: JSON_parse_def JSON_stringify_members lex_open lex_members run_object
      json_object_def del: run.simps)

lemma JSON_stringify_nonempty: "JSON_stringify props \<noteq> []"
  by (simp add: JSON_stringify_def)

lemma units_eq_iff: "units a = units b \<longleftrightarrow> a = b"
proof -
  have "inj (of_char :: char \<Rightarrow> nat)"
    by (rule injI) (metis char_of_char)
  then show ?thesis
    by (simp add: units_def inj_map_eq_map)
qed

lemma latin1_units: "latin1 (units s) = Some s"
  by (simp add: latin1_def units_def list_all_iff comp_def)

lemma as_form_props: "as_form (json_object (form_props d)) = Some d"
proof (cases "contractorLicense d")
  case None
  then show ?thesis
    by (simp add: as_form_def json_object_def form_props_def defined_props_def json_member_def
        property_def string_property_def form_keys_def units_eq_iff latin1_units)
next
  case (Some s)
  then show ?thesis
    by (simp add: as_form_def json_object_def form_props_def defined_props_def json_member_def
        property_def string_property_def form_keys_def units_eq_iff latin1_units)
qed

lemma JSON_parse_42: "JSON_parse ''42'' = Inr (JNum ''42'')"
  by (simp add: JSON_parse_def lex_42)

lemma JSON_parse_not_json: "JSON_parse ''{not json'' = Inl SyntaxError"
  by (simp add: JSON_parse_def lex_not_json)


section \<open>Drafts\<close>

text \<open>
  C8: for every draft \<open>d\<close> (form values of the six text fields, the optional one present
  or not), saving \<open>d\<close> and then loading yields \<open>d\<close>: after the save effect of a wizard
  that holds \<open>d\<close> (and has \<^verbatim>\<open>isClient\<close> set, without which the effect does not write),
  the load effect of a freshly mounted wizard resets the form to \<open>d\<close>.
\<close>

theorem draft_round_trip:
  "isClient w \<and> formValues (form w) = d \<longrightarrow>
     loadDraft (saveDraft w localStorage) w0 =
       Inr (w0\<lparr>isClient := True,
                form := reset_to d (form w0),
                toasts := toasts w0 @ [Info ''Draft application loaded'']\<rparr>)
     \<and> (\<exists>w'. loadDraft (saveDraft w localStorage) w0 = Inr w' \<and> formValues (form w') = d)"
  by (simp add: loadDraft_def saveDraft_def JSON_stringify_nonempty JSON_parse_stringify
      as_form_props reset_to_def)

text \<open>C8, example: the draft of the specification's scenario, saved into an empty storage.\<close>

theorem draft_round_trip_witness:
  "isClient (jane_wizard 2) \<and> formValues (form (jane_wizard 2)) = jane
   \<and> (\<exists>w'. loadDraft (saveDraft (jane_wizard 2) Map.empty) NewApplication = Inr w'
            \<and> formValues (form w') = jane)"
proof -
  have "isClient (jane_wizard 2) \<and> formValues (form (jane_wizard 2)) = jane"
    by (simp add: jane_wizard_def)
  then show ?thesis
    using draft_round_trip [of "jane_wizard 2" jane Map.empty NewApplication]
    by (simp add: reset_to_def)
qed

text \<open>
  C9: the claim asks that every stored text that is not a serialised draft be treated
  as a missing draft, and the \<^verbatim>\<open>try\<close> and \<^verbatim>\<open>catch\<close> of the load effect aim at that, but
  they catch the failure of \<^verbatim>\<open>JSON.parse\<close> only. The stored text \<^verbatim>\<open>42\<close> is not a serialised
  draft and it parses, so the load effect does not take the path of a missing draft:
  it passes the number to \<^verbatim>\<open>form.reset\<close> and announces a loaded draft.
\<close>

theorem foreign_json_is_loaded:
  "JSON_parse ''42'' = Inr (JNum ''42'')
   \<and> loadDraft (Map.empty(''buildingPermitDraft'' \<mapsto> ''42'')) NewApplication
       = Inl (Untyped (JNum ''42''))
   \<and> loadDraft Map.empty NewApplication = Inr (NewApplication\<lparr>isClient := True\<rparr>)"
  by (simp add: loadDraft_def JSON_parse_42 as_form_def)

text \<open>
  The texts that the load effect does treat as a missing draft are those on which
  \<^verbatim>\<open>JSON.parse\<close> fails: the wizard is then the one that a missing draft gives, apart from
  the line on the console (written unless the text is empty).
\<close>

lemma unparsable_draft_is_absent:
  "localStorage ''buildingPermitDraft'' = Some savedData \<and> JSON_parse savedData = Inl e \<longrightarrow>
     (\<exists>w'. loadDraft localStorage w = Inr w'
        \<and> loadDraft (localStorage(''buildingPermitDraft'' := None)) w
            = Inr (w'\<lparr>console := console w\<rparr>)
        \<and> isClient w' \<and> form w' = form w \<and> toasts w' = toasts w
        \<and> currentStep w' = currentStep w
        \<and> (savedData \<noteq> [] \<longrightarrow> console w' = console w @ [''Error loading draft:''])
        \<and> (w = NewApplication \<longrightarrow> formValues (form w') = initial_values))"
proof
  assume a: "localStorage ''buildingPermitDraft'' = Some savedData \<and> JSON_parse savedData = Inl e"
  let ?w' = "if savedData = [] then w\<lparr>isClient := True\<rparr>
             else w\<lparr>isClient := True, console := console w @ [''Error loading draft:'']\<rparr>"
  have 1: "loadDraft localStorage w = Inr ?w'"
    using a by (simp add: loadDraft_def)
  have 2: "loadDraft (localStorage(''buildingPermitDraft'' := None)) w
            = Inr (?w'\<lparr>console := console w\<rparr>)"
    by (simp add: loadDraft_def)
  have 3: "isClient ?w' \<and> form ?w' = form w \<and> toasts ?w' = toasts w
        \<and> currentStep ?w' = currentStep w
        \<and> (savedData \<noteq> [] \<longrightarrow> console ?w' = console w @ [''Error loading draft:''])
        \<and> (w = NewApplication \<longrightarrow> formValues (form ?w') = initial_values)"
    by (simp add: NewApplication_def useForm_def)
  from 1 2 3 show "\<exists>w'. loadDraft localStorage w = Inr w'
        \<and> loadDraft (localStorage(''buildingPermitDraft'' := None)) w
            = Inr (w'\<lparr>console := console w\<rparr>)
        \<and> isClient w' \<and> form w' = form w \<and> toasts w' = toasts w
        \<and> currentStep w' = currentStep w
        \<and> (savedData \<noteq> [] \<longrightarrow> console w' = console w @ [''Error loading draft:''])
        \<and> (w = NewApplication \<longrightarrow> formValues (form w') = initial_values)"
    by blast
qed

text \<open>A stored text that is cut off after its first member name.\<close>

lemma unparsable_draft_example:
  "(Map.empty(''buildingPermitDraft'' \<mapsto> ''{not json'')) ''buildingPermitDraft''
     = Some ''{not json''
   \<and> JSON_parse ''{not json'' = Inl SyntaxError
   \<and> (\<exists>w'. loadDraft (Map.empty(''buildingPermitDraft'' \<mapsto> ''{not json'')) NewApplication
             = Inr w'
        \<and> isClient w' \<and> toasts w' = [] \<and> formValues (form w') = initial_values
        \<and> console w' = [''Error loading draft:''])"
proof -
  have c: "console NewApplication = []" "toasts NewApplication = []"
    by (simp_all add: NewApplication_def)
  show ?thesis
    using JSON_parse_not_json
      unparsable_draft_is_absent
        [of "Map.empty(''buildingPermitDraft'' \<mapsto> ''{not json'')" "''{not json''"
          SyntaxError NewApplication]
    by (auto simp: c)
qed


section \<open>Submission\<close>

lemma application_properties:
  "json_object (form_props d @ [(''applicationId'', Some a), (''submittedAt'', Some t),
                                (''status'', Some ''Submitted'')]) = JObj ms \<Longrightarrow>
   property ms ''status'' = Some (JStr (units ''Submitted''))
   \<and> property ms ''applicationId'' = Some (JStr (units a))
   \<and> property ms ''submittedAt'' = Some (JStr (units t))"
  by (cases "contractorLicense d")
    (auto simp: json_object_def form_props_def defined_props_def json_member_def property_def
      units_eq_iff)

text \<open>
  The state in which the handler returns, when the form is on display (\<^verbatim>\<open>isClient\<close>,
  without which \<^verbatim>\<open>onSubmit\<close> returns at once) and no field has an issue: one record is
  written to the storage, under the key \<^verbatim>\<open>application_\<close> followed by the applicationId,
  and no other key changes but the draft key, which is removed. The record is the
  serialisation of the form values with the applicationId, the time of submission and
  the status \<^verbatim>\<open>Submitted\<close>. The fields are the default values that the form has at that
  moment and currentStep is 1.
\<close>

lemma submit_return_state:
  assumes "currentStep w = 4" and "isClient w"
    and "schema_issues U (formValues (form w)) = []"
  shows "\<exists>w' ls' text ms.
           submit U now random36 isoString (w, localStorage) = (w', ls')
           \<and> applicationId now random36 \<noteq> []
           \<and> ls' (''application_'' @ applicationId now random36) = Some text
           \<and> JSON_parse text = Inr (JObj ms)
           \<and> JObj ms = json_object (form_props (formValues (form w))
                 @ [(''applicationId'', Some (applicationId now random36)),
                    (''submittedAt'', Some isoString),
                    (''status'', Some ''Submitted'')])
           \<and> property ms ''status'' = Some (JStr (units ''Submitted''))
           \<and> property ms ''applicationId'' = Some (JStr (units (applicationId now random36)))
           \<and> ls' ''buildingPermitDraft'' = None
           \<and> (\<forall>k. k \<noteq> ''application_'' @ applicationId now random36
                  \<and> k \<noteq> ''buildingPermitDraft'' \<longrightarrow> ls' k = localStorage k)
           \<and> formValues (form w') = defaultValues (form w)
           \<and> defaultValues (form w') = defaultValues (form w)
           \<and> currentStep w' = 1"
proof -
  let ?id = "applicationId now random36"
  let ?data = "form_props (formValues (form w))
                 @ [(''applicationId'', Some ?id), (''submittedAt'', Some isoString),
                    (''status'', Some ''Submitted'')]"
  let ?text = "JSON_stringify ?data"
  let ?ls' = "(localStorage(''application_'' @ ?id \<mapsto> ?text))(''buildingPermitDraft'' := None)"
  let ?w' = "w\<lparr>toasts := toasts w
                  @ [Success (''Application submitted successfully! Your application ID is: ''
                              @ ?id)],
               form := reset (form w),
               currentStep := 1\<rparr>"
  obtain ms where ms: "json_object ?data = JObj ms"
    by (simp add: json_object_def)
  have run: "submit U now random36 isoString (w, localStorage) = (?w', ?ls')"
    using assms(2,3) by (simp add: submit_def handleSubmit_def onSubmit_def Let_def)
  have id: "?id \<noteq> []"
    by (simp add: applicationId_def)
  have stored: "?ls' (''application_'' @ ?id) = Some ?text"
    by simp
  have parsed: "JSON_parse ?text = Inr (JObj ms)"
    using ms by (simp only: JSON_parse_stringify)
  have props: "property ms ''status'' = Some (JStr (units ''Submitted''))
      \<and> property ms ''applicationId'' = Some (JStr (units ?id))"
    using application_properties [OF ms] by simp
  have draft: "?ls' ''buildingPermitDraft'' = None"
    by simp
  have others: "\<forall>k. k \<noteq> ''application_'' @ ?id \<and> k \<noteq> ''buildingPermitDraft'' \<longrightarrow>
      ?ls' k = localStorage k"
    by simp
  have form: "formValues (form ?w') = defaultValues (form w)
      \<and> defaultValues (form ?w') = defaultValues (form w) \<and> currentStep ?w' = 1"
    by (simp add: reset_def)
  from run id stored parsed ms props draft others form show ?thesis
    by (intro exI [of _ ?w'] exI [of _ ?ls'] exI [of _ ?text] exI [of _ ms]) simp
qed

text \<open>The scenario of the specification, submitted at step 4 with a draft in the storage.\<close>

lemma submit_return_state_example:
  "currentStep (jane_wizard 4) = 4 \<and> isClient (jane_wizard 4)
   \<and> schema_issues utils_spec (formValues (form (jane_wizard 4))) = []
   \<and> (\<exists>w' ls' text.
         submit utils_spec 1700000000000 ''0.4fzyo82mvyr'' ''2023-11-14T22:13:20.000Z''
           (jane_wizard 4, saveDraft (jane_wizard 4) Map.empty) = (w', ls')
         \<and> ls' ''application_PA-1700000000000-4FZYO82MV'' = Some text
         \<and> ls' ''buildingPermitDraft'' = None
         \<and> formValues (form w') = initial_values
         \<and> currentStep w' = 1)"
proof -
  have a: "currentStep (jane_wizard 4) = 4" "isClient (jane_wizard 4)"
    "schema_issues utils_spec (formValues (form (jane_wizard 4))) = []"
    "defaultValues (form (jane_wizard 4)) = initial_values"
    using jane_valid by (simp_all add: jane_wizard_def)
  have b: "applicationId 1700000000000 ''0.4fzyo82mvyr'' = ''PA-1700000000000-4FZYO82MV''"
    by (simp add: applicationId_def string_of_int_def string_of_nat.simps digit_char_def
        substr_def toUpperCase_def toUpperCase_char_def char_of_eval)
  from submit_return_state [OF a(1,2,3), of 1700000000000 "''0.4fzyo82mvyr''"
      "''2023-11-14T22:13:20.000Z''" "saveDraft (jane_wizard 4) Map.empty"]
  obtain w' ls' tx where
    "submit utils_spec 1700000000000 ''0.4fzyo82mvyr'' ''2023-11-14T22:13:20.000Z''
       (jane_wizard 4, saveDraft (jane_wizard 4) Map.empty) = (w', ls')"
    "ls' (''application_'' @ applicationId 1700000000000 ''0.4fzyo82mvyr'') = Some tx"
    "ls' ''buildingPermitDraft'' = None"
    "formValues (form w') = defaultValues (form (jane_wizard 4))"
    "currentStep w' = 1"
    by blast
  with a b show ?thesis
    by auto
qed

lemma jane_fields: "field_issues utils_spec jane f = []"
  by (cases f)
    (simp_all add: jane_applicantName jane_propertyAddress jane_projectType
      jane_projectDescription jane_estimatedCost jane_contractorLicense)

lemma nextStep_restored:
  "nextStep utils_spec (restored_wizard n) = restored_wizard (min (n + 1) 4)"
proof -
  have "trigger utils_spec names (form (restored_wizard n))" for names
    by (simp add: trigger_iff restored_wizard_def jane_fields)
  then show ?thesis
    by (simp add: nextStep_def Let_def FORM_STEPS_def restored_wizard_def)
qed

lemma submit_valid:
  "isClient w \<Longrightarrow> schema_issues U (formValues (form w)) = [] \<Longrightarrow>
   submit U now random36 isoString (w, localStorage) =
     (w\<lparr>toasts := toasts w
            @ [Success (''Application submitted successfully! Your application ID is: ''
                        @ applicationId now random36)],
        form := reset (form w),
        currentStep := 1\<rparr>,
      (localStorage(''application_'' @ applicationId now random36 \<mapsto>
         JSON_stringify
           (form_props (formValues (form w))
            @ [(''applicationId'', Some (applicationId now random36)),
               (''submittedAt'', Some isoString),
               (''status'', Some ''Submitted'')])))
       (''buildingPermitDraft'' := None))"
  by (simp add: submit_def handleSubmit_def onSubmit_def Let_def)

text \<open>
  C1: the claim asks that a submission at step 4 with valid fields clear the draft slot
  and reset all fields to their defaults, and the comments of \<^verbatim>\<open>onSubmit\<close> (clear draft,
  reset form) say the same; the code misses both. A session that starts with a stored
  draft loads it, which makes the draft the default value of the form, and goes to
  step 4 with three valid steps. The submission then removes the draft key, but
  \<^verbatim>\<open>form.reset()\<close> puts the loaded draft back into the fields instead of the empty
  values, and the save effect that runs after this change of the form writes the draft
  key again. The last conjunct is the session without a stored draft: there the fields
  are emptied, and the save effect still writes the draft key again, with the empty
  values.
\<close>

theorem submit_keeps_restored_draft:
  "loadDraft jane_storage NewApplication = Inr (restored_wizard 1)
   \<and> nextStep utils_spec (nextStep utils_spec (nextStep utils_spec (restored_wizard 1)))
       = restored_wizard 4
   \<and> currentStep (restored_wizard 4) = 4
   \<and> schema_issues utils_spec (formValues (form (restored_wizard 4))) = []
   \<and> formValues (form (fst (submit utils_spec 1700000000000 ''0.4fzyo82mvyr''
         ''2023-11-14T22:13:20.000Z'' (restored_wizard 4, jane_storage)))) = jane
   \<and> jane \<noteq> initial_values
   \<and> snd (submit utils_spec 1700000000000 ''0.4fzyo82mvyr''
         ''2023-11-14T22:13:20.000Z'' (restored_wizard 4, jane_storage)) ''buildingPermitDraft''
       = None
   \<and> saveDraft
        (fst (submit utils_spec 1700000000000 ''0.4fzyo82mvyr''
           ''2023-11-14T22:13:20.000Z'' (restored_wizard 4, jane_storage)))
        (snd (submit utils_spec 1700000000000 ''0.4fzyo82mvyr''
           ''2023-11-14T22:13:20.000Z'' (restored_wizard 4, jane_storage)))
        ''buildingPermitDraft''
       = Some (JSON_stringify (form_props jane))
   \<and> saveDraft
        (fst (submit utils_spec 1700000000000 ''0.4fzyo82mvyr''
           ''2023-11-14T22:13:20.000Z'' (jane_wizard 4, jane_storage)))
        (snd (submit utils_spec 1700000000000 ''0.4fzyo82mvyr''
           ''2023-11-14T22:13:20.000Z'' (jane_wizard 4, jane_storage)))
        ''buildingPermitDraft''
       = Some (JSON_stringify (form_props initial_values))"
proof -
  have load: "loadDraft jane_storage NewApplication = Inr (restored_wizard 1)"
    by (simp add: loadDraft_def jane_storage_def JSON_stringify_nonempty JSON_parse_stringify
        as_form_props reset_to_def NewApplication_def useForm_def restored_wizard_def)
  have steps: "nextStep utils_spec (nextStep utils_spec (nextStep utils_spec (restored_wizard 1)))
       = restored_wizard 4"
    by (simp add: nextStep_restored)
  have valid: "isClient (restored_wizard 4)"
    "schema_issues utils_spec (formValues (form (restored_wizard 4))) = []"
    using jane_valid by (simp_all add: restored_wizard_def)
  have valid': "isClient (jane_wizard 4)"
    "schema_issues utils_spec (formValues (form (jane_wizard 4))) = []"
    using jane_valid by (simp_all add: jane_wizard_def)
  have ne: "jane \<noteq> initial_values"
    by (simp add: jane_def initial_values_def)
  have r: "formValues (reset (form (restored_wizard 4))) = jane"
    by (simp add: reset_def restored_wizard_def)
  have r': "formValues (reset (form (jane_wizard 4))) = initial_values"
    by (simp add: reset_def jane_wizard_def)
  have c: "isClient (restored_wizard 4)" "isClient (jane_wizard 4)"
    "currentStep (restored_wizard 4) = 4"
    by (simp_all add: restored_wizard_def jane_wizard_def)
  show ?thesis
    unfolding submit_valid [OF valid] submit_valid [OF valid']
    using load steps valid(2) ne
    by (simp add: saveDraft_def r r' c)
qed

end
